theory Spec2Isabelle
  imports Main "HOL-Library.AList" "HOL-Library.Char_ord" "HOL-Library.List_Lexorder"
begin

section \<open>Python primitives used by the loaders\<close>

text \<open>
  Every exception the loaders can raise is a value. A generator is modelled by what it
  has yielded, in order, together with the way it ended: \<open>None\<close> for normal exhaustion,
  \<open>Some e\<close> for an exception raised after the yielded prefix.
\<close>

datatype error = ValueError | KeyError | IndexError | OSError | NotImplementedError

type_synonym 'a generated = "'a list \<times> error option"

text \<open>\<^verbatim>\<open>str(n)\<close> for a non-negative integer: its decimal digits.\<close>

definition digit_char :: "nat \<Rightarrow> char" where
  "digit_char d = ''0123456789'' ! d"

fun str_nat :: "nat \<Rightarrow> string" where
  "str_nat n = (if n < 10 then [digit_char n] else str_nat (n div 10) @ [digit_char (n mod 10)])"

declare str_nat.simps [simp del]

text \<open>
  \<^verbatim>\<open>s.zfill(width)\<close>: pads with zeros on the left up to \<open>width\<close>; a leading sign
  stays in front of the padding.
\<close>

definition zfill :: "string \<Rightarrow> nat \<Rightarrow> string" where
  "zfill s width =
     (if width \<le> length s then s
      else (case s of
              [] \<Rightarrow> replicate width CHR ''0''
            | c # cs \<Rightarrow>
                if c = CHR ''+'' \<or> c = CHR ''-''
                then c # replicate (width - length s) CHR ''0'' @ cs
                else replicate (width - length s) CHR ''0'' @ s))"

text \<open>
  \<^verbatim>\<open>s.split(sep)\<close> for a one-character separator: the list of the segments between
  the separators, never empty (\<^verbatim>\<open>"".split("-") == [""]\<close>).
\<close>

fun split_str :: "char \<Rightarrow> string \<Rightarrow> string list" where
  "split_str sep [] = [[]]"
| "split_str sep (c # cs) =
     (if c = sep then [] # split_str sep cs
      else (case split_str sep cs of
              [] \<Rightarrow> [[c]]
            | w # ws \<Rightarrow> (c # w) # ws))"

text \<open>\<^verbatim>\<open>xs[i]\<close> for a non-negative index: IndexError out of range.\<close>

definition getitem :: "'a list \<Rightarrow> nat \<Rightarrow> error + 'a" where
  "getitem xs i = (if i < length xs then Inr (xs ! i) else Inl IndexError)"

text \<open>\<^verbatim>\<open>xs.index(x)\<close>: the first position holding \<open>x\<close>, ValueError when there is none.\<close>

fun list_index :: "'a list \<Rightarrow> 'a \<Rightarrow> error + nat" where
  "list_index [] x = Inl ValueError"
| "list_index (y # ys) x =
     (if y = x then Inr 0
      else (case list_index ys x of Inl e \<Rightarrow> Inl e | Inr i \<Rightarrow> Inr (Suc i)))"

text \<open>
  \<^verbatim>\<open>os.path.join(a, *p)\<close> on POSIX: a component starting with the separator discards
  what came before it; otherwise components are glued with one separator unless the
  path so far is empty or already ends with one.
\<close>

definition join_step :: "string \<Rightarrow> string \<Rightarrow> string" where
  "join_step path b =
     (if b \<noteq> [] \<and> hd b = CHR ''/'' then b
      else if path = [] \<or> last path = CHR ''/'' then path @ b
      else path @ ''/'' @ b)"

definition os_path_join :: "string \<Rightarrow> string list \<Rightarrow> string" where
  "os_path_join a p = foldl join_step a p"

section \<open>burapha\_th: the directory-scanned handwriting loader\<close>

text \<open>The fields of \<^verbatim>\<open>SEACrowdConfig\<close> that the loaders read.\<close>

record config =
  name :: string
  schema :: string
  subset_id :: string

definition DATASETNAME :: string where
  "DATASETNAME = ''burapha_th''"

definition SUBSETS :: "string list" where
  "SUBSETS = [''character'', ''digit'', ''syllable'']"

definition config_constructor :: "string \<Rightarrow> string \<Rightarrow> config" where
  "config_constructor subset_name sch =
     \<lparr> name = DATASETNAME @ ''_'' @ subset_name @ ''_'' @ sch,
       schema = sch,
       subset_id = DATASETNAME @ ''_'' @ subset_name \<rparr>"

definition BUILDER_CONFIGS :: "config list" where
  "BUILDER_CONFIGS =
     map (\<lambda>s. config_constructor s ''source'') SUBSETS
     @ map (\<lambda>s. config_constructor s ''seacrowd_imtext'') SUBSETS"

definition label_chr_dig :: "string list" where
  "label_chr_dig = map (\<lambda>i. zfill (str_nat i) 2) [0..<78]"

definition label_syl :: "string list" where
  "label_syl = map (\<lambda>i. zfill (str_nat i) 3) [0..<320]"

text \<open>The two record shapes the loader yields.\<close>

record source_example =
  src_id :: string
  src_image_paths :: string
  src_label :: "nat list"

record 'l metadata =
  md_context :: "string option"
  md_labels :: "'l list"

record ('p, 'l) imtext_example =
  im_id :: string
  im_image_paths :: "'p list"
  im_texts :: "string option"
  im_metadata :: "'l metadata"

datatype burapha_example = Source source_example | Imtext "(string, nat) imtext_example"

text \<open>\<^verbatim>\<open>task = self.config.subset_id.split("_")[2]\<close>\<close>

definition task_of :: "config \<Rightarrow> error + string" where
  "task_of cfg = getitem (split_str CHR ''_'' (subset_id cfg)) 2"

text \<open>
  The conditional expression of both branches:
  \<^verbatim>\<open>self.label_chr_dig.index(key) if task in ["character", "digit"] else self.label_syl.index(key)\<close>
\<close>

definition enumeration :: "string \<Rightarrow> string list" where
  "enumeration task =
     (if task = ''character'' \<or> task = ''digit'' then label_chr_dig else label_syl)"

definition label_code :: "string \<Rightarrow> string \<Rightarrow> error + nat" where
  "label_code task key =
     (if task = ''character'' \<or> task = ''digit'' then list_index label_chr_dig key
      else list_index label_syl key)"

text \<open>
  The body of the inner loop up to the increment of the counter: \<open>Inl e\<close> when the
  lookup raises, \<open>Inr (Some ex)\<close> when a pair is yielded, \<open>Inr None\<close> when neither
  branch of the \<^verbatim>\<open>if\<close>/\<^verbatim>\<open>elif\<close> is taken.
\<close>

definition example_of :: "string \<Rightarrow> string \<Rightarrow> string \<Rightarrow> string \<Rightarrow> nat \<Rightarrow> error + burapha_example option" where
  "example_of sch task key img counter =
     (if sch = ''source'' then
        (case label_code task key of
           Inl e \<Rightarrow> Inl e
         | Inr c \<Rightarrow> Inr (Some (Source \<lparr> src_id = str_nat counter, src_image_paths = img, src_label = [c] \<rparr>)))
      else if sch = ''seacrowd_imtext'' then
        (case label_code task key of
           Inl e \<Rightarrow> Inl e
         | Inr c \<Rightarrow> Inr (Some (Imtext \<lparr> im_id = str_nat counter, im_image_paths = [img], im_texts = None,
                                         im_metadata = \<lparr> md_context = None, md_labels = [c] \<rparr> \<rparr>)))
      else Inr None)"

text \<open>\<^verbatim>\<open>for img in imgs\<close>, threading the counter.\<close>

fun gen_imgs :: "string \<Rightarrow> string \<Rightarrow> string \<Rightarrow> string list \<Rightarrow> nat
                 \<Rightarrow> (nat \<times> burapha_example) list \<times> (error + nat)" where
  "gen_imgs sch task key [] counter = ([], Inr counter)"
| "gen_imgs sch task key (img # imgs) counter =
     (case example_of sch task key img counter of
        Inl e \<Rightarrow> ([], Inl e)
      | Inr y \<Rightarrow>
          (case gen_imgs sch task key imgs (counter + 1) of
             (ys, r) \<Rightarrow> ((case y of None \<Rightarrow> [] | Some ex \<Rightarrow> [(counter, ex)]) @ ys, r)))"

text \<open>\<^verbatim>\<open>for key, imgs in filepath.items()\<close>\<close>

fun gen_items :: "string \<Rightarrow> string \<Rightarrow> (string \<times> string list) list \<Rightarrow> nat
                  \<Rightarrow> (nat \<times> burapha_example) list \<times> (error + nat)" where
  "gen_items sch task [] counter = ([], Inr counter)"
| "gen_items sch task ((key, imgs) # rest) counter =
     (case gen_imgs sch task key imgs counter of
        (ys, Inl e) \<Rightarrow> (ys, Inl e)
      | (ys, Inr counter') \<Rightarrow>
          (case gen_items sch task rest counter' of (zs, r) \<Rightarrow> (ys @ zs, r)))"

text \<open>\<^verbatim>\<open>BuraphaThDataset._generate_examples(self, filepath, split)\<close>\<close>

definition burapha_generate_examples :: "config \<Rightarrow> (string \<times> string list) list \<Rightarrow> string
                                  \<Rightarrow> (nat \<times> burapha_example) generated" where
  "burapha_generate_examples cfg filepath split =
     (case task_of cfg of
        Inl e \<Rightarrow> ([], Some e)
      | Inr task \<Rightarrow>
          (case gen_items (schema cfg) task filepath 0 of
             (ys, Inl e) \<Rightarrow> (ys, Some e)
           | (ys, Inr _) \<Rightarrow> (ys, None)))"

text \<open>
  \<^verbatim>\<open>BuraphaThDataset._split_generators\<close>. The download manager and the file system
  are outside the loader: \<open>dl\<close> gives the extracted directory of a split and
  \<open>listdir\<close> is \<^verbatim>\<open>os.listdir\<close>, which raises when the directory is missing.
\<close>

record split_generator =
  sg_name :: string
  sg_filepath :: "(string \<times> string list) list"
  sg_split :: string

fun scan_dirs :: "(string \<Rightarrow> error + string list) \<Rightarrow> string \<Rightarrow> string list
                  \<Rightarrow> (string \<times> string list) list \<Rightarrow> error + (string \<times> string list) list" where
  "scan_dirs listdir train_path [] data_pair = Inr data_pair"
| "scan_dirs listdir train_path (dir_name # rest) data_pair =
     (case getitem (split_str CHR ''-'' dir_name) 0 of
        Inl e \<Rightarrow> Inl e
      | Inr label \<Rightarrow>
          (case listdir (os_path_join train_path [dir_name]) of
             Inl e \<Rightarrow> Inl e
           | Inr names \<Rightarrow>
               scan_dirs listdir train_path rest
                 (AList.update label
                    (map (\<lambda>file_name. os_path_join train_path [dir_name, file_name]) names)
                    data_pair)))"

definition train_path_of :: "(string \<Rightarrow> string) \<Rightarrow> string \<Rightarrow> string" where
  "train_path_of dl task =
     (if task = ''character'' \<or> task = ''digit''
      then os_path_join (dl ''train'') [''train'']
      else os_path_join (dl ''train'') [''train-ori''])"

definition test_path_of :: "(string \<Rightarrow> string) \<Rightarrow> string \<Rightarrow> string" where
  "test_path_of dl task =
     (if task = ''character'' \<or> task = ''digit''
      then os_path_join (dl ''test'') [''test'']
      else os_path_join (dl ''test'') [''test-ori''])"

definition burapha_split_generators :: "(string \<Rightarrow> string) \<Rightarrow> (string \<Rightarrow> error + string list) \<Rightarrow> config
                                 \<Rightarrow> error + split_generator list" where
  "burapha_split_generators dl listdir cfg =
     (case task_of cfg of
        Inl e \<Rightarrow> Inl e
      | Inr task \<Rightarrow>
          if task \<notin> set SUBSETS then Inl KeyError
          else
            let train_path = train_path_of dl task;
                test_path = test_path_of dl task
            in (case listdir train_path of
                  Inl e \<Rightarrow> Inl e
                | Inr dir_names \<Rightarrow>
                    (case scan_dirs listdir train_path dir_names [] of
                       Inl e \<Rightarrow> Inl e
                     | Inr data_pair \<Rightarrow>
                         Inr [\<lparr> sg_name = ''train'', sg_filepath = data_pair, sg_split = ''train'' \<rparr>,
                              \<lparr> sg_name = ''test'', sg_filepath = data_pair, sg_split = ''test'' \<rparr>])))"

text \<open>
  \<^verbatim>\<open>BuraphaThDataset._info\<close>, as far as the schema decides it: the names of the
  label feature, or NotImplementedError for a schema that is neither of the two.
\<close>

datatype features = SourceFeatures "string list" | ImtextFeatures "string list"

definition burapha_info :: "config \<Rightarrow> error + features" where
  "burapha_info cfg =
     (case task_of cfg of
        Inl e \<Rightarrow> Inl e
      | Inr task \<Rightarrow>
          if schema cfg = ''source'' then Inr (SourceFeatures (enumeration task))
          else if schema cfg = ''seacrowd_imtext'' then Inr (ImtextFeatures (enumeration task))
          else Inl NotImplementedError)"

section \<open>cub\_bahasa: the join-based image-caption loader\<close>

subsection \<open>Paths (\<^verbatim>\<open>pathlib.Path\<close> on POSIX)\<close>

text \<open>
  A path object is its root (empty, one slash or two slashes) and its parts; parsing a
  string drops empty segments and \<^verbatim>\<open>"."\<close> segments. Building a path from several
  segments joins them as \<^verbatim>\<open>os.path.join\<close> does and parses the result.
\<close>

datatype path = Path (path_root: string) (parts: "string list")

definition parse_path :: "string \<Rightarrow> path" where
  "parse_path s =
     Path (if take 2 s = ''//'' \<and> take 3 s \<noteq> ''///'' then ''//''
           else if take 1 s = ''/'' then ''/''
           else [])
          (filter (\<lambda>x. x \<noteq> [] \<and> x \<noteq> ''.'') (split_str CHR ''/'' s))"

fun intercalate :: "string \<Rightarrow> string list \<Rightarrow> string" where
  "intercalate sep [] = []"
| "intercalate sep [x] = x"
| "intercalate sep (x # y # ys) = x @ sep @ intercalate sep (y # ys)"

definition path_str :: "path \<Rightarrow> string" where
  "path_str p = path_root p @ intercalate ''/'' (parts p)"

definition path_with :: "path \<Rightarrow> string list \<Rightarrow> path" where
  "path_with p segments = parse_path (os_path_join (path_str p) segments)"

definition path_parent :: "path \<Rightarrow> path" where
  "path_parent p = (if parts p = [] then p else Path (path_root p) (butlast (parts p)))"

definition path_name :: "path \<Rightarrow> string" where
  "path_name p = (if parts p = [] then [] else last (parts p))"

subsection \<open>The class table\<close>

definition IMAGE_CLASS :: "(int \<times> string) list" where
  "IMAGE_CLASS =
     [(1, ''001.Black_footed_Albatross''),
      (2, ''002.Laysan_Albatross''),
      (3, ''003.Sooty_Albatross''),
      (4, ''004.Groove_billed_Ani''),
      (5, ''005.Crested_Auklet''),
      (6, ''006.Least_Auklet''),
      (7, ''007.Parakeet_Auklet''),
      (8, ''008.Rhinoceros_Auklet''),
      (9, ''009.Brewer_Blackbird''),
      (10, ''010.Red_winged_Blackbird''),
      (11, ''011.Rusty_Blackbird''),
      (12, ''012.Yellow_headed_Blackbird''),
      (13, ''013.Bobolink''),
      (14, ''014.Indigo_Bunting''),
      (15, ''015.Lazuli_Bunting''),
      (16, ''016.Painted_Bunting''),
      (17, ''017.Cardinal''),
      (18, ''018.Spotted_Catbird''),
      (19, ''019.Gray_Catbird''),
      (20, ''020.Yellow_breasted_Chat''),
      (21, ''021.Eastern_Towhee''),
      (22, ''022.Chuck_will_Widow''),
      (23, ''023.Brandt_Cormorant''),
      (24, ''024.Red_faced_Cormorant''),
      (25, ''025.Pelagic_Cormorant''),
      (26, ''026.Bronzed_Cowbird''),
      (27, ''027.Shiny_Cowbird''),
      (28, ''028.Brown_Creeper''),
      (29, ''029.American_Crow''),
      (30, ''030.Fish_Crow''),
      (31, ''031.Black_billed_Cuckoo''),
      (32, ''032.Mangrove_Cuckoo''),
      (33, ''033.Yellow_billed_Cuckoo''),
      (34, ''034.Gray_crowned_Rosy_Finch''),
      (35, ''035.Purple_Finch''),
      (36, ''036.Northern_Flicker''),
      (37, ''037.Acadian_Flycatcher''),
      (38, ''038.Great_Crested_Flycatcher''),
      (39, ''039.Least_Flycatcher''),
      (40, ''040.Olive_sided_Flycatcher''),
      (41, ''041.Scissor_tailed_Flycatcher''),
      (42, ''042.Vermilion_Flycatcher''),
      (43, ''043.Yellow_bellied_Flycatcher''),
      (44, ''044.Frigatebird''),
      (45, ''045.Northern_Fulmar''),
      (46, ''046.Gadwall''),
      (47, ''047.American_Goldfinch''),
      (48, ''048.European_Goldfinch''),
      (49, ''049.Boat_tailed_Grackle''),
      (50, ''050.Eared_Grebe''),
      (51, ''051.Horned_Grebe''),
      (52, ''052.Pied_billed_Grebe''),
      (53, ''053.Western_Grebe''),
      (54, ''054.Blue_Grosbeak''),
      (55, ''055.Evening_Grosbeak''),
      (56, ''056.Pine_Grosbeak''),
      (57, ''057.Rose_breasted_Grosbeak''),
      (58, ''058.Pigeon_Guillemot''),
      (59, ''059.California_Gull''),
      (60, ''060.Glaucous_winged_Gull''),
      (61, ''061.Heermann_Gull''),
      (62, ''062.Herring_Gull''),
      (63, ''063.Ivory_Gull''),
      (64, ''064.Ring_billed_Gull''),
      (65, ''065.Slaty_backed_Gull''),
      (66, ''066.Western_Gull''),
      (67, ''067.Anna_Hummingbird''),
      (68, ''068.Ruby_throated_Hummingbird''),
      (69, ''069.Rufous_Hummingbird''),
      (70, ''070.Green_Violetear''),
      (71, ''071.Long_tailed_Jaeger''),
      (72, ''072.Pomarine_Jaeger''),
      (73, ''073.Blue_Jay''),
      (74, ''074.Florida_Jay''),
      (75, ''075.Green_Jay''),
      (76, ''076.Dark_eyed_Junco''),
      (77, ''077.Tropical_Kingbird''),
      (78, ''078.Gray_Kingbird''),
      (79, ''079.Belted_Kingfisher''),
      (80, ''080.Green_Kingfisher''),
      (81, ''081.Pied_Kingfisher''),
      (82, ''082.Ringed_Kingfisher''),
      (83, ''083.White_breasted_Kingfisher''),
      (84, ''084.Red_legged_Kittiwake''),
      (85, ''085.Horned_Lark''),
      (86, ''086.Pacific_Loon''),
      (87, ''087.Mallard''),
      (88, ''088.Western_Meadowlark''),
      (89, ''089.Hooded_Merganser''),
      (90, ''090.Red_breasted_Merganser''),
      (91, ''091.Mockingbird''),
      (92, ''092.Nighthawk''),
      (93, ''093.Clark_Nutcracker''),
      (94, ''094.White_breasted_Nuthatch''),
      (95, ''095.Baltimore_Oriole''),
      (96, ''096.Hooded_Oriole''),
      (97, ''097.Orchard_Oriole''),
      (98, ''098.Scott_Oriole''),
      (99, ''099.Ovenbird''),
      (100, ''100.Brown_Pelican''),
      (101, ''101.White_Pelican''),
      (102, ''102.Western_Wood_Pewee''),
      (103, ''103.Sayornis''),
      (104, ''104.American_Pipit''),
      (105, ''105.Whip_poor_Will''),
      (106, ''106.Horned_Puffin''),
      (107, ''107.Common_Raven''),
      (108, ''108.White_necked_Raven''),
      (109, ''109.American_Redstart''),
      (110, ''110.Geococcyx''),
      (111, ''111.Loggerhead_Shrike''),
      (112, ''112.Great_Grey_Shrike''),
      (113, ''113.Baird_Sparrow''),
      (114, ''114.Black_throated_Sparrow''),
      (115, ''115.Brewer_Sparrow''),
      (116, ''116.Chipping_Sparrow''),
      (117, ''117.Clay_colored_Sparrow''),
      (118, ''118.House_Sparrow''),
      (119, ''119.Field_Sparrow''),
      (120, ''120.Fox_Sparrow''),
      (121, ''121.Grasshopper_Sparrow''),
      (122, ''122.Harris_Sparrow''),
      (123, ''123.Henslow_Sparrow''),
      (124, ''124.Le_Conte_Sparrow''),
      (125, ''125.Lincoln_Sparrow''),
      (126, ''126.Nelson_Sharp_tailed_Sparrow''),
      (127, ''127.Savannah_Sparrow''),
      (128, ''128.Seaside_Sparrow''),
      (129, ''129.Song_Sparrow''),
      (130, ''130.Tree_Sparrow''),
      (131, ''131.Vesper_Sparrow''),
      (132, ''132.White_crowned_Sparrow''),
      (133, ''133.White_throated_Sparrow''),
      (134, ''134.Cape_Glossy_Starling''),
      (135, ''135.Bank_Swallow''),
      (136, ''136.Barn_Swallow''),
      (137, ''137.Cliff_Swallow''),
      (138, ''138.Tree_Swallow''),
      (139, ''139.Scarlet_Tanager''),
      (140, ''140.Summer_Tanager''),
      (141, ''141.Artic_Tern''),
      (142, ''142.Black_Tern''),
      (143, ''143.Caspian_Tern''),
      (144, ''144.Common_Tern''),
      (145, ''145.Elegant_Tern''),
      (146, ''146.Forsters_Tern''),
      (147, ''147.Least_Tern''),
      (148, ''148.Green_tailed_Towhee''),
      (149, ''149.Brown_Thrasher''),
      (150, ''150.Sage_Thrasher''),
      (151, ''151.Black_capped_Vireo''),
      (152, ''152.Blue_headed_Vireo''),
      (153, ''153.Philadelphia_Vireo''),
      (154, ''154.Red_eyed_Vireo''),
      (155, ''155.Warbling_Vireo''),
      (156, ''156.White_eyed_Vireo''),
      (157, ''157.Yellow_throated_Vireo''),
      (158, ''158.Bay_breasted_Warbler''),
      (159, ''159.Black_and_white_Warbler''),
      (160, ''160.Black_throated_Blue_Warbler''),
      (161, ''161.Blue_winged_Warbler''),
      (162, ''162.Canada_Warbler''),
      (163, ''163.Cape_May_Warbler''),
      (164, ''164.Cerulean_Warbler''),
      (165, ''165.Chestnut_sided_Warbler''),
      (166, ''166.Golden_winged_Warbler''),
      (167, ''167.Hooded_Warbler''),
      (168, ''168.Kentucky_Warbler''),
      (169, ''169.Magnolia_Warbler''),
      (170, ''170.Mourning_Warbler''),
      (171, ''171.Myrtle_Warbler''),
      (172, ''172.Nashville_Warbler''),
      (173, ''173.Orange_crowned_Warbler''),
      (174, ''174.Palm_Warbler''),
      (175, ''175.Pine_Warbler''),
      (176, ''176.Prairie_Warbler''),
      (177, ''177.Prothonotary_Warbler''),
      (178, ''178.Swainson_Warbler''),
      (179, ''179.Tennessee_Warbler''),
      (180, ''180.Wilson_Warbler''),
      (181, ''181.Worm_eating_Warbler''),
      (182, ''182.Yellow_Warbler''),
      (183, ''183.Northern_Waterthrush''),
      (184, ''184.Louisiana_Waterthrush''),
      (185, ''185.Bohemian_Waxwing''),
      (186, ''186.Cedar_Waxwing''),
      (187, ''187.American_Three_toed_Woodpecker''),
      (188, ''188.Pileated_Woodpecker''),
      (189, ''189.Red_bellied_Woodpecker''),
      (190, ''190.Red_cockaded_Woodpecker''),
      (191, ''191.Red_headed_Woodpecker''),
      (192, ''192.Downy_Woodpecker''),
      (193, ''193.Bewick_Wren''),
      (194, ''194.Cactus_Wren''),
      (195, ''195.Carolina_Wren''),
      (196, ''196.House_Wren''),
      (197, ''197.Marsh_Wren''),
      (198, ''198.Rock_Wren''),
      (199, ''199.Winter_Wren''),
      (200, ''200.Common_Yellowthroat'')]"

text \<open>\<^verbatim>\<open>self.IMAGE_CLASS[k]\<close>: KeyError when the key is absent.\<close>

definition image_class :: "int \<Rightarrow> error + string" where
  "image_class k = (case map_of IMAGE_CLASS k of None \<Rightarrow> Inl KeyError | Some v \<Rightarrow> Inr v)"

subsection \<open>Tables\<close>

text \<open>
  The parsed inputs: the rows of \<^verbatim>\<open>images.txt\<close>, \<^verbatim>\<open>image_class_labels.txt\<close> and
  \<^verbatim>\<open>train_test_split.txt\<close> as \<^verbatim>\<open>read_csv\<close> returns them, and the items of the caption file.
\<close>

record text_item =
  filename :: string
  item_captions :: "(string \<times> string) list"  \<comment> \<open>(english, indo)\<close>

record text_row =
  image_name :: string
  en_caption1 :: string
  id_caption1 :: string

record grouped_row =
  g_image_name :: string
  g_en_caption :: "string list"
  g_id_caption :: "string list"

record row =
  image_id :: int
  image_path :: path
  en_caption :: "string list"
  id_caption :: "string list"
  class_id :: int
  is_train :: int

text \<open>
  \<^verbatim>\<open>pd.merge(left, right, on=key)\<close>, the library's default inner join on one key
  column: one output row for every pair of a left row and a right row with equal keys,
  in the order of the left rows; a row of either table without a partner is dropped.
  This is the order the library documents. Releases before 2.2 put left rows with equal
  keys next to each other instead; that changes the order of the joined rows (and with it
  their index labels) when two images share a file name, and nothing else.
\<close>

definition pd_merge :: "('l \<Rightarrow> 'k) \<Rightarrow> ('r \<Rightarrow> 'k) \<Rightarrow> ('l \<Rightarrow> 'r \<Rightarrow> 'o) \<Rightarrow> 'l list \<Rightarrow> 'r list \<Rightarrow> 'o list" where
  "pd_merge kl kr comb left right =
     concat (map (\<lambda>l. map (comb l) (filter (\<lambda>r. kr r = kl l) right)) left)"

text \<open>
  \<^verbatim>\<open>df_text.groupby('image_name').agg(list).reset_index()\<close>: one row per distinct
  name, the names in ascending order, each caption column collected in row order.
  A frame built from no rows has no columns, and grouping it raises KeyError.
\<close>

definition df_text_of :: "text_item list \<Rightarrow> text_row list" where
  "df_text_of dataset =
     concat (map (\<lambda>item. map (\<lambda>(english, indo).
                \<lparr> image_name = filename item, en_caption1 = english, id_caption1 = indo \<rparr>)
              (item_captions item)) dataset)"

definition groupby_image_name :: "text_row list \<Rightarrow> error + grouped_row list" where
  "groupby_image_name df_text =
     (if df_text = [] then Inl KeyError
      else Inr (map (\<lambda>k. \<lparr> g_image_name = k,
                            g_en_caption = map en_caption1 (filter (\<lambda>r. image_name r = k) df_text),
                            g_id_caption = map id_caption1 (filter (\<lambda>r. image_name r = k) df_text) \<rparr>)
                    (sort (remdups (map image_name df_text)))))"

text \<open>A data frame keeps its index labels when rows are filtered out.\<close>

type_synonym data_frame = "(nat \<times> row) list"

definition joined :: "path \<Rightarrow> (int \<times> string) list \<Rightarrow> (int \<times> int) list \<Rightarrow> (int \<times> int) list
                      \<Rightarrow> grouped_row list \<Rightarrow> row list" where
  "joined images_parent df_image df_label df_split grouped_text =
     (let df_image' = map (\<lambda>(i, x). (i, path_with images_parent [''images'', x])) df_image;
          df1 = pd_merge (\<lambda>(i, p). path_name p) g_image_name
                  (\<lambda>(i, p) g. (i, p, g_en_caption g, g_id_caption g)) df_image' grouped_text;
          df2 = pd_merge (\<lambda>(i, p, en, ind). i) fst
                  (\<lambda>(i, p, en, ind) (_, c). (i, p, en, ind, c)) df1 df_label
      in pd_merge (\<lambda>(i, p, en, ind, c). i) fst
           (\<lambda>(i, p, en, ind, c) (_, t).
              \<lparr> image_id = i, image_path = p, en_caption = en, id_caption = ind,
                class_id = c, is_train = t \<rparr>) df2 df_split)"

record cub_split_generator =
  csg_name :: string
  csg_data :: data_frame
  csg_split :: string

text \<open>
  \<^verbatim>\<open>CubBahasaDataset._split_generators\<close>; \<open>data_path_image\<close> is where the download
  manager extracted the image archive.
\<close>

definition cub_split_generators :: "string \<Rightarrow> (int \<times> string) list \<Rightarrow> (int \<times> int) list \<Rightarrow> (int \<times> int) list
                                     \<Rightarrow> text_item list \<Rightarrow> error + cub_split_generator list" where
  "cub_split_generators data_path_image df_image df_label df_split dataset =
     (let image_meta = path_with (path_with (parse_path data_path_image) [''CUB_200_2011'']) [''images.txt'']
      in case groupby_image_name (df_text_of dataset) of
           Inl e \<Rightarrow> Inl e
         | Inr grouped_text \<Rightarrow>
             let df = enumerate 0 (joined (path_parent image_meta) df_image df_label df_split grouped_text)
             in Inr [\<lparr> csg_name = ''train'', csg_data = filter (\<lambda>(k, r). is_train r = 1) df, csg_split = ''train'' \<rparr>,
                     \<lparr> csg_name = ''test'', csg_data = filter (\<lambda>(k, r). is_train r = 0) df, csg_split = ''test'' \<rparr>])"

subsection \<open>Examples\<close>

record caption =
  caption_eng :: string
  caption_ind :: string

record cub_source_example =
  ex_image_id :: int
  ex_class_id :: int
  ex_image_path :: path
  ex_class_name :: string
  ex_captions :: "caption list"

datatype cub_example = CubSource cub_source_example | CubImtext "(path, string) imtext_example"

definition SEACROWD_SCHEMA_NAME :: string where
  "SEACROWD_SCHEMA_NAME = ''imtext''"

text \<open>\<^verbatim>\<open>CubBahasaDataset.BUILDER_CONFIGS\<close>\<close>

definition CUB_DATASETNAME :: string where
  "CUB_DATASETNAME = ''cub_bahasa''"

definition CUB_BUILDER_CONFIGS :: "config list" where
  "CUB_BUILDER_CONFIGS =
     [\<lparr> name = CUB_DATASETNAME @ ''_source'', schema = ''source'', subset_id = CUB_DATASETNAME \<rparr>,
      \<lparr> name = CUB_DATASETNAME @ ''_seacrowd_'' @ SEACROWD_SCHEMA_NAME,
        schema = ''seacrowd_'' @ SEACROWD_SCHEMA_NAME, subset_id = CUB_DATASETNAME \<rparr>]"

text \<open>The list comprehension of the source branch; a short Indonesian list is an IndexError.\<close>

fun captions_of :: "string list \<Rightarrow> string list \<Rightarrow> nat list \<Rightarrow> error + caption list" where
  "captions_of en ind [] = Inr []"
| "captions_of en ind (i # is) =
     (case getitem en i of
        Inl e \<Rightarrow> Inl e
      | Inr a \<Rightarrow>
          (case getitem ind i of
             Inl e \<Rightarrow> Inl e
           | Inr b \<Rightarrow>
               (case captions_of en ind is of
                  Inl e \<Rightarrow> Inl e
                | Inr cs \<Rightarrow> Inr (\<lparr> caption_eng = a, caption_ind = b \<rparr> # cs))))"

definition source_example_of :: "row \<Rightarrow> error + cub_source_example" where
  "source_example_of r =
     (case image_class (class_id r) of
        Inl e \<Rightarrow> Inl e
      | Inr cname \<Rightarrow>
          (case captions_of (en_caption r) (id_caption r) [0..<length (en_caption r)] of
             Inl e \<Rightarrow> Inl e
           | Inr cs \<Rightarrow>
               Inr \<lparr> ex_image_id = image_id r, ex_class_id = class_id r, ex_image_path = image_path r,
                     ex_class_name = cname, ex_captions = cs \<rparr>))"

text \<open>\<^verbatim>\<open>for key, row in data.iterrows()\<close> of the source branch: the key is the index label.\<close>

fun gen_source :: "data_frame \<Rightarrow> (nat \<times> cub_example) generated" where
  "gen_source [] = ([], None)"
| "gen_source ((key, r) # rest) =
     (case source_example_of r of
        Inl e \<Rightarrow> ([], Some e)
      | Inr ex \<Rightarrow> (case gen_source rest of (ys, e) \<Rightarrow> ((key, CubSource ex) # ys, e)))"

definition imtext_example_of :: "row \<Rightarrow> nat \<Rightarrow> nat \<Rightarrow> error + (path, string) imtext_example" where
  "imtext_example_of r i key =
     (case getitem (id_caption r) i of
        Inl e \<Rightarrow> Inl e
      | Inr t \<Rightarrow>
          (case getitem (en_caption r) i of
             Inl e \<Rightarrow> Inl e
           | Inr c \<Rightarrow>
               (case image_class (class_id r) of
                  Inl e \<Rightarrow> Inl e
                | Inr cname \<Rightarrow>
                    Inr \<lparr> im_id = str_nat key, im_image_paths = [image_path r], im_texts = Some t,
                          im_metadata = \<lparr> md_context = Some c, md_labels = [cname] \<rparr> \<rparr>)))"

text \<open>\<^verbatim>\<open>for i in range(len(row["id_caption"]))\<close>, threading the key.\<close>

fun gen_captions :: "row \<Rightarrow> nat list \<Rightarrow> nat \<Rightarrow> (nat \<times> cub_example) list \<times> (error + nat)" where
  "gen_captions r [] key = ([], Inr key)"
| "gen_captions r (i # is) key =
     (case imtext_example_of r i key of
        Inl e \<Rightarrow> ([], Inl e)
      | Inr ex \<Rightarrow>
          (case gen_captions r is (key + 1) of (ys, res) \<Rightarrow> ((key, CubImtext ex) # ys, res)))"

text \<open>\<^verbatim>\<open>for _, row in data.iterrows()\<close> of the unified branch.\<close>

fun gen_imtext :: "data_frame \<Rightarrow> nat \<Rightarrow> (nat \<times> cub_example) list \<times> (error + nat)" where
  "gen_imtext [] key = ([], Inr key)"
| "gen_imtext ((_, r) # rest) key =
     (case gen_captions r [0..<length (id_caption r)] key of
        (ys, Inl e) \<Rightarrow> (ys, Inl e)
      | (ys, Inr key') \<Rightarrow> (case gen_imtext rest key' of (zs, res) \<Rightarrow> (ys @ zs, res)))"

text \<open>\<^verbatim>\<open>CubBahasaDataset._generate_examples(self, data, split)\<close>\<close>

definition cub_generate_examples :: "config \<Rightarrow> data_frame \<Rightarrow> string \<Rightarrow> (nat \<times> cub_example) generated" where
  "cub_generate_examples cfg data split =
     (if schema cfg = ''source'' then gen_source data
      else if schema cfg = ''seacrowd_'' @ SEACROWD_SCHEMA_NAME then
        (case gen_imtext data 0 of
           (ys, Inl e) \<Rightarrow> (ys, Some e)
         | (ys, Inr _) \<Rightarrow> (ys, None))
      else ([], None))"

section \<open>mswc: the parquet-sourced speech loader\<close>

text \<open>
  \<open>read_parquet\<close> is \<^verbatim>\<open>pd.read_parquet\<close>, outside the loader; it raises when the file
  cannot be read. A row is yielded as it is (\<^verbatim>\<open>row.to_dict()\<close>).
\<close>

text \<open>\<^verbatim>\<open>for _, row in df.iterrows(): yield idx, row.to_dict(); idx += 1\<close>\<close>

fun gen_rows :: "'r list \<Rightarrow> nat \<Rightarrow> (nat \<times> 'r) list \<times> nat" where
  "gen_rows [] idx = ([], idx)"
| "gen_rows (r # rs) idx = (case gen_rows rs (idx + 1) of (ys, idx') \<Rightarrow> ((idx, r) # ys, idx'))"

text \<open>\<^verbatim>\<open>for path in paths: df = pd.read_parquet(path); ...\<close>\<close>

fun gen_paths :: "(string \<Rightarrow> error + 'r list) \<Rightarrow> string list \<Rightarrow> nat
                  \<Rightarrow> (nat \<times> 'r) list \<times> (error + nat)" where
  "gen_paths read_parquet [] idx = ([], Inr idx)"
| "gen_paths read_parquet (p # ps) idx =
     (case read_parquet p of
        Inl e \<Rightarrow> ([], Inl e)
      | Inr df \<Rightarrow>
          (case gen_rows df idx of
             (ys, idx') \<Rightarrow>
               (case gen_paths read_parquet ps idx' of (zs, res) \<Rightarrow> (ys @ zs, res))))"

text \<open>
  \<^verbatim>\<open>for seacrowd_schema in _SUPPORTED_SCHEMA_STRINGS\<close>, threading \<open>idx\<close> and
  \<open>is_schema_found\<close>.
\<close>

fun gen_supported :: "(string \<Rightarrow> error + 'r list) \<Rightarrow> string \<Rightarrow> string list \<Rightarrow> string list
                      \<Rightarrow> nat \<times> bool \<Rightarrow> (nat \<times> 'r) list \<times> (error + nat \<times> bool)" where
  "gen_supported read_parquet sch paths [] st = ([], Inr st)"
| "gen_supported read_parquet sch paths (seacrowd_schema # rest) (idx, is_schema_found) =
     (if sch = seacrowd_schema then
        (case gen_paths read_parquet paths idx of
           (ys, Inl e) \<Rightarrow> (ys, Inl e)
         | (ys, Inr idx') \<Rightarrow>
             (case gen_supported read_parquet sch paths rest (idx', True) of
                (zs, res) \<Rightarrow> (ys @ zs, res)))
      else gen_supported read_parquet sch paths rest (idx, is_schema_found))"

text \<open>
  \<^verbatim>\<open>_SUPPORTED_SCHEMA_STRINGS\<close> is built from the table \<^verbatim>\<open>TASK_TO_SCHEMA\<close> of the shared
  constants module; \<open>schema_names\<close> stands for
  \<^verbatim>\<open>[str(TASK_TO_SCHEMA[task]).lower() for task in _SUPPORTED_TASKS]\<close>.
\<close>

definition SUPPORTED_SCHEMA_STRINGS :: "string list \<Rightarrow> string list" where
  "SUPPORTED_SCHEMA_STRINGS schema_names = map (\<lambda>s. ''seacrowd_'' @ s) schema_names"

text \<open>\<^verbatim>\<open>MSWC._generate_examples(self, paths)\<close>\<close>

definition mswc_generate_examples :: "string list \<Rightarrow> (string \<Rightarrow> error + 'r list) \<Rightarrow> config \<Rightarrow> string list
                                       \<Rightarrow> (nat \<times> 'r) generated" where
  "mswc_generate_examples schema_names read_parquet cfg paths =
     (if schema cfg = ''source'' then
        (case gen_paths read_parquet paths 0 of
           (ys, Inl e) \<Rightarrow> (ys, Some e)
         | (ys, Inr _) \<Rightarrow> (ys, None))
      else
        (case gen_supported read_parquet (schema cfg) paths (SUPPORTED_SCHEMA_STRINGS schema_names) (0, False) of
           (ys, Inl e) \<Rightarrow> (ys, Some e)
         | (ys, Inr (_, is_schema_found)) \<Rightarrow>
             if \<not> is_schema_found then (ys, Some ValueError) else (ys, None)))"

section \<open>Notions used in the statements\<close>

text \<open>The items of the index in iteration order: one (label, file) pair per file.\<close>

definition items_of :: "(string \<times> string list) list \<Rightarrow> (string \<times> string) list" where
  "items_of filepath = concat (map (\<lambda>(key, imgs). map (Pair key) imgs) filepath)"

text \<open>The first position of a label in the enumeration of its task.\<close>

definition code_of :: "string \<Rightarrow> string \<Rightarrow> nat" where
  "code_of task key = length (takeWhile (\<lambda>l. l \<noteq> key) (enumeration task))"

text \<open>The record yielded for an item whose label resolves, under either declared schema.\<close>

definition record_of :: "string \<Rightarrow> string \<Rightarrow> string \<Rightarrow> string \<Rightarrow> nat \<Rightarrow> burapha_example" where
  "record_of sch task key img counter =
     (if sch = ''source''
      then Source \<lparr> src_id = str_nat counter, src_image_paths = img, src_label = [code_of task key] \<rparr>
      else Imtext \<lparr> im_id = str_nat counter, im_image_paths = [img], im_texts = None,
                    im_metadata = \<lparr> md_context = None, md_labels = [code_of task key] \<rparr> \<rparr>)"

text \<open>Items numbered from a starting counter, each with its record.\<close>

definition numbered :: "string \<Rightarrow> string \<Rightarrow> nat \<Rightarrow> (string \<times> string) list \<Rightarrow> (nat \<times> burapha_example) list" where
  "numbered sch task c kis = map (\<lambda>(j, (key, img)). (j, record_of sch task key img j)) (enumerate c kis)"

text \<open>The schema identifiers that \<^verbatim>\<open>BUILDER_CONFIGS\<close> declares for burapha\_th.\<close>

definition declared :: "string \<Rightarrow> bool" where
  "declared sch = (sch = ''source'' \<or> sch = ''seacrowd_imtext'')"

text \<open>An entry of the index whose files can all be labelled: it has no file, or its label is in the enumeration.\<close>

definition resolvable :: "string \<Rightarrow> string \<times> string list \<Rightarrow> bool" where
  "resolvable task = (\<lambda>(key, imgs). imgs = [] \<or> key \<in> set (enumeration task))"

text \<open>The keys of the yielded pairs count up from \<open>c\<close> in steps of one.\<close>

definition sequential_from :: "nat \<Rightarrow> (nat \<times> 'a) list \<Rightarrow> bool" where
  "sequential_from c ys = (map fst ys = [c..<c + length ys])"

text \<open>The label list of a yielded record, whichever its shape.\<close>

definition labels_of :: "burapha_example \<Rightarrow> nat list" where
  "labels_of ex = (case ex of Source s \<Rightarrow> src_label s | Imtext i \<Rightarrow> md_labels (im_metadata i))"

text \<open>Two download layouts and two file systems that differ only outside the train directory.\<close>

definition example_dl :: "string \<Rightarrow> string" where
  "example_dl s = (if s = ''train'' then ''/data'' else ''/data-test'')"

definition example_dl' :: "string \<Rightarrow> string" where
  "example_dl' s = (if s = ''train'' then ''/data'' else ''/elsewhere'')"

definition example_listdir :: "string \<Rightarrow> error + string list" where
  "example_listdir p =
     (if p = ''/data/train'' then Inr [''00-zero'', ''01-one'']
      else if p = ''/data/train/00-zero'' then Inr [''a.png'']
      else if p = ''/data/train/01-one'' then Inr [''b.png'', ''c.png'']
      else Inl OSError)"

definition example_listdir' :: "string \<Rightarrow> error + string list" where
  "example_listdir' p = (if p = ''/elsewhere/test'' then Inr [''77-other''] else example_listdir p)"

text \<open>A configuration whose schema no loader declares.\<close>

definition bogus_config :: config where
  "bogus_config = config_constructor ''digit'' ''bogus_schema''"

text \<open>
  Three images, of which the third has no caption entry; the first is a test image, the
  other two are train images.
\<close>

definition example_images :: "(int \<times> string) list" where
  "example_images = [(1, ''001.Black_footed_Albatross/a.jpg''), (2, ''001.Black_footed_Albatross/b.jpg''),
                     (3, ''002.Laysan_Albatross/c.jpg'')]"

definition example_labels :: "(int \<times> int) list" where
  "example_labels = [(1, 1), (2, 1), (3, 2)]"

definition example_splits :: "(int \<times> int) list" where
  "example_splits = [(1, 0), (2, 1), (3, 1)]"

definition example_captions :: "text_item list" where
  "example_captions =
     [\<lparr> filename = ''b.jpg'', item_captions = [(''a bird'', ''seekor burung''), (''it flies'', ''ia terbang'')] \<rparr>,
      \<lparr> filename = ''a.jpg'', item_captions = [(''white'', ''putih''), (''at sea'', ''di laut'')] \<rparr>]"

definition example_row :: "int \<Rightarrow> string \<Rightarrow> string list \<Rightarrow> string list \<Rightarrow> int \<Rightarrow> row" where
  "example_row i file en ind t =
     \<lparr> image_id = i,
       image_path = Path ''/'' [''d'', ''CUB_200_2011'', ''images'', ''001.Black_footed_Albatross'', file],
       en_caption = en, id_caption = ind, class_id = 1, is_train = t \<rparr>"

definition example_train :: data_frame where
  "example_train = [(1, example_row 2 ''b.jpg'' [''a bird'', ''it flies''] [''seekor burung'', ''ia terbang''] 1)]"

definition example_test :: data_frame where
  "example_test = [(0, example_row 1 ''a.jpg'' [''white'', ''at sea''] [''putih'', ''di laut''] 0)]"

text \<open>The class name that \<^verbatim>\<open>IMAGE_CLASS[c]\<close> gives for a class id of the table.\<close>

definition class_name_of :: "int \<Rightarrow> string" where
  "class_name_of c = (case map_of IMAGE_CLASS c of Some v \<Rightarrow> v | None \<Rightarrow> [])"

text \<open>A row of a frame whose class id is a key of the class table.\<close>

definition class_known :: "nat \<times> row \<Rightarrow> bool" where
  "class_known = (\<lambda>(k, r). class_id r \<in> fst ` set IMAGE_CLASS)"

text \<open>
  A row as the join builds it: the two caption lists come from one group of caption rows,
  so they are equally long and not empty.
\<close>

definition joined_row :: "nat \<times> row \<Rightarrow> bool" where
  "joined_row = (\<lambda>(k, r). length (en_caption r) = length (id_caption r) \<and> id_caption r \<noteq> [])"

text \<open>The source record of a row whose class resolves.\<close>

definition source_record :: "row \<Rightarrow> cub_example" where
  "source_record r =
     CubSource \<lparr> ex_image_id = image_id r, ex_class_id = class_id r, ex_image_path = image_path r,
                 ex_class_name = class_name_of (class_id r),
                 ex_captions = map (\<lambda>i. \<lparr> caption_eng = en_caption r ! i, caption_ind = id_caption r ! i \<rparr>)
                                   [0..<length (en_caption r)] \<rparr>"

text \<open>The unified record of caption \<open>i\<close> of a row, under the id \<open>key\<close>.\<close>

definition unified_record :: "row \<Rightarrow> string \<Rightarrow> nat \<Rightarrow> nat \<Rightarrow> cub_example" where
  "unified_record r cname i key =
     CubImtext \<lparr> im_id = str_nat key, im_image_paths = [image_path r], im_texts = Some (id_caption r ! i),
                 im_metadata = \<lparr> md_context = Some (en_caption r ! i), md_labels = [cname] \<rparr> \<rparr>"

text \<open>One record per caption of a row, numbered from \<open>key\<close>.\<close>

definition fan_out :: "row \<Rightarrow> nat \<Rightarrow> (nat \<times> cub_example) list" where
  "fan_out r key =
     map (\<lambda>i. (key + i, unified_record r (class_name_of (class_id r)) i (key + i))) [0..<length (id_caption r)]"

text \<open>The unified records of the rows of a frame, numbered from \<open>key\<close> onwards.\<close>

fun unified_records :: "data_frame \<Rightarrow> nat \<Rightarrow> (nat \<times> cub_example) list" where
  "unified_records [] key = []"
| "unified_records ((k, r) # rest) key = fan_out r key @ unified_records rest (key + length (id_caption r))"

text \<open>The directory that holds \<^verbatim>\<open>images.txt\<close>: \<^verbatim>\<open>image_meta.parent\<close>.\<close>

definition images_parent :: "string \<Rightarrow> path" where
  "images_parent data_path_image =
     path_parent (path_with (path_with (parse_path data_path_image) [''CUB_200_2011'']) [''images.txt''])"

text \<open>
  Three captioned train images, the second filed under a class id that the class table
  does not have.
\<close>

definition unknown_class_labels :: "(int \<times> int) list" where
  "unknown_class_labels = [(1, 1), (2, 201), (3, 2)]"

definition all_train_splits :: "(int \<times> int) list" where
  "all_train_splits = [(1, 1), (2, 1), (3, 1)]"

definition three_captions :: "text_item list" where
  "three_captions =
     [\<lparr> filename = ''a.jpg'', item_captions = [(''white'', ''putih''), (''at sea'', ''di laut'')] \<rparr>,
      \<lparr> filename = ''b.jpg'', item_captions = [(''a bird'', ''seekor burung'')] \<rparr>,
      \<lparr> filename = ''c.jpg'', item_captions = [(''it flies'', ''ia terbang'')] \<rparr>]"

definition unknown_class_frame :: data_frame where
  "unknown_class_frame =
     [(0, example_row 1 ''a.jpg'' [''white'', ''at sea''] [''putih'', ''di laut''] 1),
      (1, (example_row 2 ''b.jpg'' [''a bird''] [''seekor burung''] 1) \<lparr> class_id := 201 \<rparr>),
      (2, \<lparr> image_id = 3,
            image_path = Path ''/'' [''d'', ''CUB_200_2011'', ''images'', ''002.Laysan_Albatross'', ''c.jpg''],
            en_caption = [''it flies''], id_caption = [''ia terbang''], class_id = 2, is_train = 1 \<rparr>)]"

text \<open>The first segment of a directory name split on the delimiter: \<^verbatim>\<open>dir_name.split("-")[0]\<close>.\<close>

definition first_segment :: "string \<Rightarrow> string" where
  "first_segment dir_name = takeWhile (\<lambda>c. c \<noteq> CHR ''-'') dir_name"

text \<open>The joined paths of the files listed beneath a child directory.\<close>

definition files_beneath :: "string \<Rightarrow> string \<Rightarrow> string list \<Rightarrow> string list" where
  "files_beneath root dir_name names = map (\<lambda>file_name. os_path_join root [dir_name, file_name]) names"

text \<open>A directory with two children that carry the same label.\<close>

definition clash_listdir :: "string \<Rightarrow> error + string list" where
  "clash_listdir p =
     (if p = ''/data/train'' then Inr [''00-a'', ''00-b'', ''01-c'']
      else if p = ''/data/train/00-a'' then Inr [''x.png'']
      else if p = ''/data/train/00-b'' then Inr [''y.png'']
      else if p = ''/data/train/01-c'' then Inr [''z.png'']
      else Inl OSError)"






text \<open>The captions that a joined row brings to the two splits.\<close>

definition caption_weight :: "row \<Rightarrow> nat" where
  "caption_weight r = (if is_train r = 1 \<or> is_train r = 0 then length (id_caption r) else 0)"

section \<open>Auxiliary lemmas\<close>

subsection \<open>Label lookup and the burapha\_th loops\<close>

lemma list_index_eq:
  "list_index xs x = (if x \<in> set xs then Inr (length (takeWhile (\<lambda>l. l \<noteq> x) xs)) else Inl ValueError)"
  by (induction xs) auto

lemma label_code_eq:
  "label_code task key = (if key \<in> set (enumeration task) then Inr (code_of task key) else Inl ValueError)"
  by (simp add: label_code_def enumeration_def code_of_def list_index_eq)

lemma first_position:
  "x \<in> set xs \<Longrightarrow> length (takeWhile (\<lambda>l. l \<noteq> x) xs) < length xs
     \<and> xs ! length (takeWhile (\<lambda>l. l \<noteq> x) xs) = x"
  by (induction xs) auto

lemma code_of_nth:
  "key \<in> set (enumeration task) \<Longrightarrow> code_of task key < length (enumeration task) \<and> enumeration task ! code_of task key = key"
  unfolding code_of_def by (rule first_position)

lemma example_of_eq:
  "declared sch \<Longrightarrow> example_of sch task key img c =
     (if key \<in> set (enumeration task) then Inr (Some (record_of sch task key img c)) else Inl ValueError)"
  by (auto simp: declared_def example_of_def label_code_eq record_of_def)

lemma example_of_undeclared:
  "\<not> declared sch \<Longrightarrow> example_of sch task key img c = Inr None"
  by (simp add: declared_def example_of_def)

lemma numbered_Nil [simp]: "numbered sch task c [] = []"
  by (simp add: numbered_def)

lemma numbered_Cons:
  "numbered sch task c ((key, img) # kis) = (c, record_of sch task key img c) # numbered sch task (Suc c) kis"
  by (simp add: numbered_def)

lemma numbered_append:
  "numbered sch task c (xs @ ys) = numbered sch task c xs @ numbered sch task (c + length xs) ys"
  by (simp add: numbered_def enumerate_append_eq)

lemma map_fst_numbered: "map fst (numbered sch task c kis) = [c..<c + length kis]"
proof -
  have "map fst (numbered sch task c kis) = map fst (enumerate c kis)"
    by (simp add: numbered_def case_prod_beta comp_def)
  then show ?thesis by simp
qed

lemma length_numbered [simp]: "length (numbered sch task c kis) = length kis"
  by (simp add: numbered_def)

lemma gen_imgs_declared:
  "declared sch \<Longrightarrow> gen_imgs sch task key imgs c =
     (if imgs = [] \<or> key \<in> set (enumeration task)
      then (numbered sch task c (map (Pair key) imgs), Inr (c + length imgs))
      else ([], Inl ValueError))"
  by (induction imgs arbitrary: c) (auto simp: example_of_eq numbered_Cons)

lemma gen_imgs_undeclared:
  "\<not> declared sch \<Longrightarrow> gen_imgs sch task key imgs c = ([], Inr (c + length imgs))"
  by (induction imgs arbitrary: c) (auto simp: example_of_undeclared)

lemma items_of_simps [simp]:
  "items_of [] = []"
  "items_of ((key, imgs) # rest) = map (Pair key) imgs @ items_of rest"
  by (simp_all add: items_of_def)

lemma gen_items_declared:
  "declared sch \<Longrightarrow> gen_items sch task filepath c =
     (numbered sch task c (items_of (takeWhile (resolvable task) filepath)),
      if list_all (resolvable task) filepath then Inr (c + length (items_of filepath)) else Inl ValueError)"
proof (induction filepath arbitrary: c)
  case Nil
  then show ?case by simp
next
  case (Cons a filepath)
  obtain key imgs where a: "a = (key, imgs)" by (cases a)
  show ?case
  proof (cases "resolvable task (key, imgs)")
    case True
    then have "gen_imgs sch task key imgs c = (numbered sch task c (map (Pair key) imgs), Inr (c + length imgs))"
      using Cons.prems by (simp add: gen_imgs_declared resolvable_def)
    then show ?thesis
      using True Cons.prems by (simp add: a Cons.IH numbered_append)
  next
    case False
    then have "gen_imgs sch task key imgs c = ([], Inl ValueError)"
      using Cons.prems by (simp add: gen_imgs_declared resolvable_def)
    then show ?thesis
      using False by (simp add: a)
  qed
qed

lemma gen_items_undeclared:
  "\<not> declared sch \<Longrightarrow> gen_items sch task filepath c = ([], Inr (c + length (items_of filepath)))"
  by (induction filepath arbitrary: c) (auto simp: gen_imgs_undeclared)

lemma burapha_generate_declared:
  "declared (schema cfg) \<Longrightarrow> task_of cfg = Inr task \<Longrightarrow>
   burapha_generate_examples cfg filepath split =
     (numbered (schema cfg) task 0 (items_of (takeWhile (resolvable task) filepath)),
      if list_all (resolvable task) filepath then None else Some ValueError)"
  by (simp add: burapha_generate_examples_def gen_items_declared)

lemma burapha_generate_undeclared:
  "\<not> declared (schema cfg) \<Longrightarrow> task_of cfg = Inr task \<Longrightarrow>
   burapha_generate_examples cfg filepath split = ([], None)"
  by (simp add: burapha_generate_examples_def gen_items_undeclared)

lemma burapha_generate_no_task:
  "task_of cfg = Inl e \<Longrightarrow> burapha_generate_examples cfg filepath split = ([], Some e)"
  by (simp add: burapha_generate_examples_def)

lemma sequential_from_Nil [simp]: "sequential_from c []"
  by (simp add: sequential_from_def)

lemma sequential_from_Cons:
  "sequential_from c ((k, x) # ys) = (k = c \<and> sequential_from (Suc c) ys)"
proof -
  have "[c..<c + length ((k, x) # ys)] = c # [Suc c..<Suc c + length ys]"
    by (simp add: upt_conv_Cons del: upt_Suc)
  then show ?thesis by (auto simp: sequential_from_def simp del: upt_Suc)
qed

lemma sequential_from_append:
  "sequential_from c (ys @ zs) = (sequential_from c ys \<and> sequential_from (c + length ys) zs)"
proof (induction ys arbitrary: c)
  case Nil
  then show ?case by simp
next
  case (Cons a ys)
  obtain k x where a: "a = (k, x)" by (cases a)
  show ?case by (simp add: a sequential_from_Cons Cons.IH)
qed

lemma burapha_sequential:
  "sequential_from 0 (fst (burapha_generate_examples cfg filepath split))"
proof (cases "task_of cfg")
  case (Inl e)
  then show ?thesis by (simp add: burapha_generate_no_task)
next
  case (Inr task)
  then show ?thesis
    by (cases "declared (schema cfg)")
       (simp_all add: burapha_generate_declared burapha_generate_undeclared sequential_from_def map_fst_numbered)
qed

lemma gen_rows_eq: "gen_rows rs idx = (enumerate idx rs, idx + length rs)"
  by (induction rs arbitrary: idx) auto

lemma sequential_enumerate: "sequential_from idx (enumerate idx rs)"
  by (simp add: sequential_from_def)

lemma gen_paths_sequential:
  "gen_paths read_parquet ps idx = (ys, res) \<Longrightarrow>
   sequential_from idx ys \<and> (\<forall>idx'. res = Inr idx' \<longrightarrow> idx' = idx + length ys)"
proof (induction ps arbitrary: idx ys res)
  case Nil
  then show ?case by auto
next
  case (Cons p ps)
  show ?case
  proof (cases "read_parquet p")
    case (Inl e)
    with Cons.prems show ?thesis by auto
  next
    case (Inr df)
    obtain zs r where rest: "gen_paths read_parquet ps (idx + length df) = (zs, r)"
      by (cases "gen_paths read_parquet ps (idx + length df)")
    from Cons.prems Inr rest have ys: "ys = enumerate idx df @ zs" and res: "res = r"
      by (simp_all add: gen_rows_eq)
    from Cons.IH [OF rest] show ?thesis
      by (auto simp: ys res sequential_from_append sequential_enumerate)
  qed
qed

lemma gen_supported_sequential:
  "gen_supported read_parquet sch paths supp (idx, found) = (ys, res) \<Longrightarrow>
   sequential_from idx ys \<and> (\<forall>idx' found'. res = Inr (idx', found') \<longrightarrow> idx' = idx + length ys)"
proof (induction supp arbitrary: idx found ys res)
  case Nil
  then show ?case by auto
next
  case (Cons s supp)
  show ?case
  proof (cases "sch = s")
    case False
    with Cons.prems have "gen_supported read_parquet sch paths supp (idx, found) = (ys, res)" by simp
    from Cons.IH [OF this] show ?thesis .
  next
    case True
    obtain us r where first: "gen_paths read_parquet paths idx = (us, r)"
      by (cases "gen_paths read_parquet paths idx")
    note seq = gen_paths_sequential [OF first]
    show ?thesis
    proof (cases r)
      case (Inl e)
      with Cons.prems True first seq show ?thesis by auto
    next
      case (Inr idx')
      obtain zs r' where rest: "gen_supported read_parquet sch paths supp (idx', True) = (zs, r')"
        by (cases "gen_supported read_parquet sch paths supp (idx', True)")
      from Cons.prems True first Inr rest have ys: "ys = us @ zs" and res: "res = r'"
        by simp_all
      from seq Inr have idx': "idx' = idx + length us" by simp
      from Cons.IH [OF rest] seq show ?thesis
        by (auto simp: ys res idx' sequential_from_append)
    qed
  qed
qed

lemma mswc_sequential:
  "sequential_from 0 (fst (mswc_generate_examples schema_names read_parquet cfg paths))"
proof (cases "schema cfg = ''source''")
  case True
  obtain ys r where g: "gen_paths read_parquet paths 0 = (ys, r)"
    by (cases "gen_paths read_parquet paths 0")
  from gen_paths_sequential [OF g] show ?thesis
    using True g by (cases r) (simp_all add: mswc_generate_examples_def)
next
  case False
  obtain ys r where g: "gen_supported read_parquet (schema cfg) paths (SUPPORTED_SCHEMA_STRINGS schema_names) (0, False) = (ys, r)"
    by (cases "gen_supported read_parquet (schema cfg) paths (SUPPORTED_SCHEMA_STRINGS schema_names) (0, False)")
  from gen_supported_sequential [OF g] show ?thesis
    using False g by (cases r) (auto simp: mswc_generate_examples_def split: prod.splits)
qed

lemma gen_captions_sequential:
  "gen_captions r is key = (ys, res) \<Longrightarrow>
   sequential_from key ys \<and> (\<forall>key'. res = Inr key' \<longrightarrow> key' = key + length ys)"
proof (induction "is" arbitrary: key ys res)
  case Nil
  then show ?case by auto
next
  case (Cons i "is")
  show ?case
  proof (cases "imtext_example_of r i key")
    case (Inl e)
    with Cons.prems show ?thesis by auto
  next
    case (Inr ex)
    obtain zs r' where rest: "gen_captions r is (key + 1) = (zs, r')"
      by (cases "gen_captions r is (key + 1)")
    from Cons.prems Inr rest have ys: "ys = (key, CubImtext ex) # zs" and res: "res = r'"
      by simp_all
    from Cons.IH [OF rest] show ?thesis
      by (auto simp: ys res sequential_from_Cons)
  qed
qed

lemma gen_imtext_sequential:
  "gen_imtext data key = (ys, res) \<Longrightarrow>
   sequential_from key ys \<and> (\<forall>key'. res = Inr key' \<longrightarrow> key' = key + length ys)"
proof (induction data arbitrary: key ys res)
  case Nil
  then show ?case by auto
next
  case (Cons a data)
  obtain k r where a: "a = (k, r)" by (cases a)
  obtain us r1 where first: "gen_captions r [0..<length (id_caption r)] key = (us, r1)"
    by (cases "gen_captions r [0..<length (id_caption r)] key")
  note seq = gen_captions_sequential [OF first]
  show ?case
  proof (cases r1)
    case (Inl e)
    with Cons.prems a first seq show ?thesis by auto
  next
    case (Inr key')
    obtain zs r' where rest: "gen_imtext data key' = (zs, r')"
      by (cases "gen_imtext data key'")
    from Cons.prems a first Inr rest have ys: "ys = us @ zs" and res: "res = r'"
      by simp_all
    from seq Inr have key': "key' = key + length us" by simp
    from Cons.IH [OF rest] seq show ?thesis
      by (auto simp: ys res key' sequential_from_append)
  qed
qed

lemma gen_source_keys:
  "map fst (fst (gen_source data)) = take (length (fst (gen_source data))) (map fst data)"
  by (induction data) (auto split: sum.splits prod.splits)

lemma cub_imtext_sequential:
  "schema cfg \<noteq> ''source'' \<Longrightarrow> sequential_from 0 (fst (cub_generate_examples cfg data split))"
proof -
  assume ns: "schema cfg \<noteq> ''source''"
  obtain ys r where g: "gen_imtext data 0 = (ys, r)" by (cases "gen_imtext data 0")
  from gen_imtext_sequential [OF g] show ?thesis
    using ns g by (cases r) (simp_all add: cub_generate_examples_def)
qed

subsection \<open>The records of the burapha\_th generator, position by position\<close>

lemma items_of_append: "items_of (xs @ ys) = items_of xs @ items_of ys"
  by (simp add: items_of_def)

lemma items_of_takeWhile_nth:
  "j < length (items_of (takeWhile P filepath)) \<Longrightarrow>
   items_of (takeWhile P filepath) ! j = items_of filepath ! j"
proof -
  assume j: "j < length (items_of (takeWhile P filepath))"
  have "items_of filepath = items_of (takeWhile P filepath) @ items_of (dropWhile P filepath)"
    by (simp flip: items_of_append)
  then show ?thesis using j by (simp add: nth_append)
qed

lemma items_of_resolvable:
  "(key, img) \<in> set (items_of (takeWhile (resolvable task) filepath)) \<Longrightarrow> key \<in> set (enumeration task)"
proof -
  assume "(key, img) \<in> set (items_of (takeWhile (resolvable task) filepath))"
  then obtain k imgs where e: "(k, imgs) \<in> set (takeWhile (resolvable task) filepath)"
    and m: "(key, img) \<in> set (map (Pair k) imgs)"
    by (auto simp: items_of_def)
  from e have "resolvable task (k, imgs)" by (rule set_takeWhileD [THEN conjunct2])
  with m show ?thesis by (auto simp: resolvable_def)
qed

lemma numbered_nth:
  "j < length kis \<Longrightarrow>
   numbered sch task c kis ! j = (c + j, record_of sch task (fst (kis ! j)) (snd (kis ! j)) (c + j))"
  by (simp add: numbered_def nth_enumerate_eq split: prod.splits)

lemma yielded_record:
  assumes "declared (schema cfg)" and "task_of cfg = Inr task"
    and "j < length (fst (burapha_generate_examples cfg filepath split))"
  shows "fst (burapha_generate_examples cfg filepath split) ! j =
           (j, record_of (schema cfg) task (fst (items_of filepath ! j)) (snd (items_of filepath ! j)) j)
         \<and> fst (items_of filepath ! j) \<in> set (enumeration task)"
proof -
  let ?kis = "items_of (takeWhile (resolvable task) filepath)"
  from assms have j: "j < length ?kis" by (simp add: burapha_generate_declared)
  then have "?kis ! j \<in> set ?kis" by simp
  then have "fst (?kis ! j) \<in> set (enumeration task)"
    using items_of_resolvable [of "fst (?kis ! j)" "snd (?kis ! j)" task filepath] by simp
  moreover have "?kis ! j = items_of filepath ! j" using j by (rule items_of_takeWhile_nth)
  ultimately show ?thesis
    using assms j by (simp add: burapha_generate_declared numbered_nth)
qed

lemma digit_task: "task_of (config_constructor ''digit'' sch) = Inr ''digit''"
  by (simp add: task_of_def config_constructor_def DATASETNAME_def getitem_def)

lemma run_digit_source:
  "burapha_generate_examples (config_constructor ''digit'' ''source'') [(''05'', [''a.png'', ''b.png''])] ''train'' =
     ([(0, Source \<lparr> src_id = ''0'', src_image_paths = ''a.png'', src_label = [5] \<rparr>),
       (1, Source \<lparr> src_id = ''1'', src_image_paths = ''b.png'', src_label = [5] \<rparr>)], None)"
  by code_simp

lemma run_digit_imtext:
  "burapha_generate_examples (config_constructor ''digit'' ''seacrowd_imtext'') [(''05'', [''a.png''])] ''test'' =
     ([(0, Imtext \<lparr> im_id = ''0'', im_image_paths = [''a.png''], im_texts = None,
                     im_metadata = \<lparr> md_context = None, md_labels = [5] \<rparr> \<rparr>)], None)"
  by code_simp

lemma first_position_least:
  "j < length (takeWhile (\<lambda>l. l \<noteq> x) xs) \<Longrightarrow> xs ! j \<noteq> x"
proof -
  assume j: "j < length (takeWhile (\<lambda>l. l \<noteq> x) xs)"
  then have "takeWhile (\<lambda>l. l \<noteq> x) xs ! j \<in> set (takeWhile (\<lambda>l. l \<noteq> x) xs)" by simp
  then have "takeWhile (\<lambda>l. l \<noteq> x) xs ! j \<noteq> x" by (auto dest: set_takeWhileD)
  moreover have "takeWhile (\<lambda>l. l \<noteq> x) xs ! j = xs ! j" using j by (rule takeWhile_nth)
  ultimately show ?thesis by simp
qed

lemma all_resolvable_iff:
  "list_all (resolvable task) filepath =
     (\<not> (\<exists>(key, imgs) \<in> set filepath. imgs \<noteq> [] \<and> key \<notin> set (enumeration task)))"
  by (auto simp: list_all_iff resolvable_def)

lemma generate_ignores_split:
  "burapha_generate_examples cfg filepath s1 = burapha_generate_examples cfg filepath s2"
  by (simp add: burapha_generate_examples_def)

lemma scan_dirs_cong:
  "(\<And>d. d \<in> set dirs \<Longrightarrow> listdir' (os_path_join root [d]) = listdir (os_path_join root [d])) \<Longrightarrow>
   scan_dirs listdir' root dirs acc = scan_dirs listdir root dirs acc"
proof (induction dirs arbitrary: acc)
  case Nil
  show ?case by simp
next
  case (Cons d dirs)
  have here: "listdir' (os_path_join root [d]) = listdir (os_path_join root [d])"
    by (rule Cons.prems) simp
  have rest: "\<And>acc. scan_dirs listdir' root dirs acc = scan_dirs listdir root dirs acc"
    by (rule Cons.IH) (simp add: Cons.prems)
  show ?case by (simp add: here rest split: sum.splits)
qed

lemma gen_supported_unknown:
  "sch \<notin> set supp \<Longrightarrow> gen_supported read_parquet sch paths supp (idx, found) = ([], Inr (idx, found))"
  by (induction supp) simp_all

lemma example_scan:
  "burapha_split_generators example_dl example_listdir (config_constructor ''digit'' ''source'') =
     Inr [\<lparr> sg_name = ''train'',
            sg_filepath = [(''00'', [''/data/train/00-zero/a.png'']),
                           (''01'', [''/data/train/01-one/b.png'', ''/data/train/01-one/c.png''])],
            sg_split = ''train'' \<rparr>,
          \<lparr> sg_name = ''test'',
            sg_filepath = [(''00'', [''/data/train/00-zero/a.png'']),
                           (''01'', [''/data/train/01-one/b.png'', ''/data/train/01-one/c.png''])],
            sg_split = ''test'' \<rparr>]"
  by code_simp

lemma example_train_path: "train_path_of example_dl ''digit'' = ''/data/train''"
  by code_simp

lemma run_digit_absent:
  "burapha_generate_examples (config_constructor ''digit'' ''source'')
     [(''05'', [''a.png'']), (''99'', [''x.png'']), (''06'', [''y.png''])] ''train'' =
     ([(0, Source \<lparr> src_id = ''0'', src_image_paths = ''a.png'', src_label = [5] \<rparr>)], Some ValueError)"
  by code_simp

lemma run_bogus:
  "burapha_generate_examples bogus_config [(''05'', [''a.png''])] ''train'' = ([], None)"
  by code_simp

lemma example_frames:
  "cub_split_generators ''/d'' example_images example_labels example_splits example_captions =
     Inr [\<lparr> csg_name = ''train'', csg_data = example_train, csg_split = ''train'' \<rparr>,
          \<lparr> csg_name = ''test'', csg_data = example_test, csg_split = ''test'' \<rparr>]"
  by code_simp

lemma example_train_source:
  "map fst (fst (cub_generate_examples (CUB_BUILDER_CONFIGS ! 0) example_train ''train'')) = [1]"
  by code_simp

lemma example_train_imtext:
  "map fst (fst (cub_generate_examples (CUB_BUILDER_CONFIGS ! 1) example_train ''train'')) = [0, 1]"
  by code_simp

lemma sorted_wrt_take_less: "sorted_wrt P xs \<Longrightarrow> sorted_wrt P (take n xs)"
proof -
  assume "sorted_wrt P xs"
  then have "sorted_wrt P (take n xs @ drop n xs)" by simp
  then show ?thesis unfolding sorted_wrt_append by simp
qed

lemma frame_keys_increasing:
  "sorted_wrt (<) (map fst (filter P (enumerate 0 rows)))"
proof -
  have "sorted_wrt (<) (map fst (enumerate 0 rows))" by simp
  then have "sorted_wrt (\<lambda>a b. fst a < fst b) (enumerate 0 rows)" unfolding sorted_wrt_map .
  then have "sorted_wrt (\<lambda>a b. fst a < fst b) (filter P (enumerate 0 rows))" by (rule sorted_wrt_filter)
  then show ?thesis by (simp add: sorted_wrt_map)
qed

lemma split_frames_increasing:
  "cub_split_generators p di dl ds dataset = Inr gens \<Longrightarrow> g \<in> set gens \<Longrightarrow>
   sorted_wrt (<) (map fst (csg_data g))"
  by (auto simp: cub_split_generators_def Let_def frame_keys_increasing split: sum.splits)

lemma sequential_increasing: "sequential_from c ys \<Longrightarrow> sorted_wrt (<) (map fst ys)"
  by (simp add: sequential_from_def)

lemma cub_keys_increasing:
  assumes "sorted_wrt (<) (map fst data)"
  shows "sorted_wrt (<) (map fst (fst (cub_generate_examples cfg data split)))"
proof (cases "schema cfg = ''source''")
  case True
  have "map fst (fst (gen_source data)) = take (length (fst (gen_source data))) (map fst data)"
    by (rule gen_source_keys)
  with assms show ?thesis using True by (simp add: cub_generate_examples_def sorted_wrt_take_less)
next
  case False
  then have "sequential_from 0 (fst (cub_generate_examples cfg data split))"
    by (rule cub_imtext_sequential)
  then show ?thesis by (rule sequential_increasing)
qed

lemma class_table_keys: "map fst IMAGE_CLASS = [1..200]"
  by code_simp

lemma image_class_known:
  "c \<in> fst ` set IMAGE_CLASS \<Longrightarrow> image_class c = Inr (class_name_of c)"
  by (auto simp: image_class_def class_name_of_def map_of_eq_None_iff split: option.splits)

lemma image_class_unknown:
  "c \<notin> fst ` set IMAGE_CLASS \<Longrightarrow> image_class c = Inl KeyError"
  by (auto simp: image_class_def map_of_eq_None_iff split: option.splits)

lemma class_table_range: "(c \<in> fst ` set IMAGE_CLASS) = (1 \<le> c \<and> c \<le> 200)"
proof -
  have "fst ` set IMAGE_CLASS = set (map fst IMAGE_CLASS)" by simp
  also have "\<dots> = {1..200}" by (simp only: class_table_keys set_upto)
  finally show ?thesis by simp
qed

lemma class_table_distinct: "distinct (map fst IMAGE_CLASS)"
  by (simp only: class_table_keys distinct_upto)

lemma image_class_entry: "(c, cname) \<in> set IMAGE_CLASS \<Longrightarrow> image_class c = Inr cname"
  using class_table_distinct by (simp add: image_class_def)

lemma captions_of_eq:
  "\<forall>i \<in> set is. i < length en \<and> i < length ind \<Longrightarrow>
   captions_of en ind is = Inr (map (\<lambda>i. \<lparr> caption_eng = en ! i, caption_ind = ind ! i \<rparr>) is)"
  by (induction "is") (simp_all add: getitem_def)

lemma source_example_known:
  "class_id r \<in> fst ` set IMAGE_CLASS \<Longrightarrow> length (en_caption r) = length (id_caption r) \<Longrightarrow>
   map_sum id CubSource (source_example_of r) = Inr (source_record r)"
  by (simp add: source_example_of_def image_class_known captions_of_eq source_record_def)

lemma source_example_unknown:
  "class_id r \<notin> fst ` set IMAGE_CLASS \<Longrightarrow> source_example_of r = Inl KeyError"
  by (simp add: source_example_of_def image_class_unknown)

lemma gen_source_eq:
  "\<forall>kr \<in> set data. joined_row kr \<Longrightarrow>
   gen_source data =
     (map (\<lambda>(k, r). (k, source_record r)) (takeWhile class_known data),
      if list_all class_known data then None else Some KeyError)"
proof (induction data)
  case Nil
  show ?case by simp
next
  case (Cons a data)
  obtain k r where a: "a = (k, r)" by (cases a)
  from Cons.prems a have len: "length (en_caption r) = length (id_caption r)"
    by (simp add: joined_row_def)
  from Cons.prems have rest: "\<forall>kr \<in> set data. joined_row kr" by simp
  show ?case
  proof (cases "class_id r \<in> fst ` set IMAGE_CLASS")
    case True
    from source_example_known [OF True len]
    obtain ex where ex: "source_example_of r = Inr ex" and rec: "CubSource ex = source_record r"
      by (cases "source_example_of r") simp_all
    show ?thesis using True by (simp add: a ex rec class_known_def Cons.IH [OF rest])
  next
    case False
    then show ?thesis by (simp add: a source_example_unknown class_known_def)
  qed
qed

lemma gen_captions_known:
  "\<forall>i \<in> set is. i < length (id_caption r) \<and> i < length (en_caption r) \<Longrightarrow>
   image_class (class_id r) = Inr cname \<Longrightarrow>
   gen_captions r is key =
     (map (\<lambda>(j, i). (j, unified_record r cname i j)) (enumerate key is), Inr (key + length is))"
  by (induction "is" arbitrary: key) (simp_all add: imtext_example_of_def getitem_def unified_record_def)

lemma gen_captions_unknown:
  "0 < length (id_caption r) \<Longrightarrow> length (en_caption r) = length (id_caption r) \<Longrightarrow>
   image_class (class_id r) = Inl e \<Longrightarrow>
   gen_captions r [0..<length (id_caption r)] key = ([], Inl e)"
  by (simp add: upt_conv_Cons imtext_example_of_def getitem_def del: upt_Suc)

lemma enumerate_upt_map:
  "map (\<lambda>(j, i). f j i) (enumerate key [0..<n]) = map (\<lambda>i. f (key + i) i) [0..<n]"
  by (rule nth_equalityI) (simp_all add: nth_enumerate_eq)

lemma gen_captions_row:
  assumes "length (en_caption r) = length (id_caption r)" and "image_class (class_id r) = Inr cname"
  shows "gen_captions r [0..<length (id_caption r)] key =
           (map (\<lambda>i. (key + i, unified_record r cname i (key + i))) [0..<length (id_caption r)],
            Inr (key + length (id_caption r)))"
proof -
  have "\<forall>i \<in> set [0..<length (id_caption r)]. i < length (id_caption r) \<and> i < length (en_caption r)"
    using assms(1) by simp
  from gen_captions_known [OF this assms(2)] show ?thesis
    by (simp add: enumerate_upt_map [of "\<lambda>j i. (j, unified_record r cname i j)"])
qed

lemma gen_imtext_known:
  assumes "length (en_caption r) = length (id_caption r)" and "image_class (class_id r) = Inr cname"
  shows "gen_imtext ((k, r) # rest) key =
           (map (\<lambda>i. (key + i, unified_record r cname i (key + i))) [0..<length (id_caption r)]
              @ fst (gen_imtext rest (key + length (id_caption r))),
            snd (gen_imtext rest (key + length (id_caption r))))"
  by (simp add: gen_captions_row [OF assms] split: prod.splits)

lemma gen_imtext_eq:
  "\<forall>kr \<in> set data. joined_row kr \<Longrightarrow>
   gen_imtext data key =
     (unified_records (takeWhile class_known data) key,
      if list_all class_known data then Inr (key + length (unified_records data key)) else Inl KeyError)"
proof (induction data arbitrary: key)
  case Nil
  show ?case by simp
next
  case (Cons a data)
  obtain k r where a: "a = (k, r)" by (cases a)
  from Cons.prems a have len: "length (en_caption r) = length (id_caption r)" and ne: "0 < length (id_caption r)"
    by (simp_all add: joined_row_def)
  from Cons.prems have rest: "\<forall>kr \<in> set data. joined_row kr" by simp
  show ?case
  proof (cases "class_id r \<in> fst ` set IMAGE_CLASS")
    case True
    note ic = image_class_known [OF True]
    show ?thesis
      using True
      by (simp add: a gen_imtext_known [OF len ic] Cons.IH [OF rest] class_known_def fan_out_def
                 del: gen_imtext.simps)
  next
    case False
    note ic = image_class_unknown [OF False]
    show ?thesis using False by (simp add: a gen_captions_unknown [OF ne len ic] class_known_def)
  qed
qed

lemma grouped_rows:
  assumes "groupby_image_name t = Inr grouped" and "g \<in> set grouped"
  shows "length (g_en_caption g) = length (g_id_caption g) \<and> g_id_caption g \<noteq> []"
proof -
  from assms obtain k where k: "k \<in> set (map image_name t)"
    and g: "g = \<lparr> g_image_name = k,
                  g_en_caption = map en_caption1 (filter (\<lambda>r. image_name r = k) t),
                  g_id_caption = map id_caption1 (filter (\<lambda>r. image_name r = k) t) \<rparr>"
    by (auto simp: groupby_image_name_def split: if_splits)
  from k have "filter (\<lambda>r. image_name r = k) t \<noteq> []" by (auto simp: filter_empty_conv)
  with g show ?thesis by simp
qed

lemma joined_rows:
  "r \<in> set (joined parent di dl ds grouped) \<Longrightarrow>
   \<exists>g \<in> set grouped. en_caption r = g_en_caption g \<and> id_caption r = g_id_caption g"
  by (auto simp: joined_def pd_merge_def Let_def)

lemma split_frames_shape:
  "cub_split_generators p di dl ds dataset = Inr gens \<Longrightarrow>
   \<exists>grouped. groupby_image_name (df_text_of dataset) = Inr grouped
     \<and> gens = [\<lparr> csg_name = ''train'',
                  csg_data = filter (\<lambda>(k, r). is_train r = 1) (enumerate 0 (joined (images_parent p) di dl ds grouped)),
                  csg_split = ''train'' \<rparr>,
                \<lparr> csg_name = ''test'',
                  csg_data = filter (\<lambda>(k, r). is_train r = 0) (enumerate 0 (joined (images_parent p) di dl ds grouped)),
                  csg_split = ''test'' \<rparr>]"
  by (auto simp: cub_split_generators_def Let_def images_parent_def split: sum.splits)

lemma split_frames_joined:
  assumes "cub_split_generators p di dl ds dataset = Inr gens" and "g \<in> set gens"
  shows "\<forall>kr \<in> set (csg_data g). joined_row kr"
proof
  fix kr assume kr: "kr \<in> set (csg_data g)"
  obtain k r where p: "kr = (k, r)" by (cases kr)
  from split_frames_shape [OF assms(1)] obtain grouped where
    grouped: "groupby_image_name (df_text_of dataset) = Inr grouped"
    and gens: "gens = [\<lparr> csg_name = ''train'',
                  csg_data = filter (\<lambda>(k, r). is_train r = 1) (enumerate 0 (joined (images_parent p) di dl ds grouped)),
                  csg_split = ''train'' \<rparr>,
                \<lparr> csg_name = ''test'',
                  csg_data = filter (\<lambda>(k, r). is_train r = 0) (enumerate 0 (joined (images_parent p) di dl ds grouped)),
                  csg_split = ''test'' \<rparr>]"
    by blast
  from assms(2) kr have "kr \<in> set (enumerate 0 (joined (images_parent p) di dl ds grouped))"
    unfolding gens by auto
  then have "r \<in> set (joined (images_parent p) di dl ds grouped)"
    by (auto simp: p in_set_enumerate_eq)
  from joined_rows [OF this] obtain g' where g': "g' \<in> set grouped"
    and en: "en_caption r = g_en_caption g'" and ind: "id_caption r = g_id_caption g'"
    by blast
  from grouped_rows [OF grouped g'] show "joined_row kr"
    by (simp add: p joined_row_def en ind)
qed

lemma unknown_class_frames:
  "cub_split_generators ''/d'' example_images unknown_class_labels all_train_splits three_captions =
     Inr [\<lparr> csg_name = ''train'', csg_data = unknown_class_frame, csg_split = ''train'' \<rparr>,
          \<lparr> csg_name = ''test'', csg_data = [], csg_split = ''test'' \<rparr>]"
  by code_simp

lemma unknown_class_source:
  "cub_generate_examples (CUB_BUILDER_CONFIGS ! 0) unknown_class_frame ''train'' =
     ([(0, CubSource \<lparr> ex_image_id = 1, ex_class_id = 1,
                        ex_image_path = Path ''/'' [''d'', ''CUB_200_2011'', ''images'', ''001.Black_footed_Albatross'', ''a.jpg''],
                        ex_class_name = ''001.Black_footed_Albatross'',
                        ex_captions = [\<lparr> caption_eng = ''white'', caption_ind = ''putih'' \<rparr>,
                                       \<lparr> caption_eng = ''at sea'', caption_ind = ''di laut'' \<rparr>] \<rparr>)],
      Some KeyError)"
  by code_simp

lemma unknown_class_imtext:
  "cub_generate_examples (CUB_BUILDER_CONFIGS ! 1) unknown_class_frame ''train'' =
     ([(0, CubImtext \<lparr> im_id = ''0'',
                        im_image_paths = [Path ''/'' [''d'', ''CUB_200_2011'', ''images'', ''001.Black_footed_Albatross'', ''a.jpg'']],
                        im_texts = Some ''putih'',
                        im_metadata = \<lparr> md_context = Some ''white'', md_labels = [''001.Black_footed_Albatross''] \<rparr> \<rparr>),
       (1, CubImtext \<lparr> im_id = ''1'',
                        im_image_paths = [Path ''/'' [''d'', ''CUB_200_2011'', ''images'', ''001.Black_footed_Albatross'', ''a.jpg'']],
                        im_texts = Some ''di laut'',
                        im_metadata = \<lparr> md_context = Some ''at sea'', md_labels = [''001.Black_footed_Albatross''] \<rparr> \<rparr>)],
      Some KeyError)"
  by code_simp

lemma run_bogus_absent:
  "burapha_generate_examples bogus_config [(''99'', [''x.png''])] ''train'' = ([], None)"
  by code_simp

lemma cub_source_eq:
  assumes "schema cfg = ''source''" and "\<forall>kr \<in> set data. joined_row kr"
  shows "cub_generate_examples cfg data split =
           (map (\<lambda>(k, r). (k, source_record r)) (takeWhile class_known data),
            if list_all class_known data then None else Some KeyError)"
  using assms(1) gen_source_eq [OF assms(2)] by (simp add: cub_generate_examples_def)

lemma cub_imtext_eq:
  assumes "schema cfg = ''seacrowd_imtext''" and "\<forall>kr \<in> set data. joined_row kr"
  shows "cub_generate_examples cfg data split =
           (unified_records (takeWhile class_known data) 0,
            if list_all class_known data then None else Some KeyError)"
  using assms(1) gen_imtext_eq [OF assms(2), of 0]
  by (simp add: cub_generate_examples_def SEACROWD_SCHEMA_NAME_def)



lemma split_str_first: "getitem (split_str sep s) 0 = Inr (takeWhile (\<lambda>c. c \<noteq> sep) s)"
proof (induction s)
  case Nil
  show ?case by (simp add: getitem_def)
next
  case (Cons c s)
  then show ?case by (auto simp: getitem_def split: list.splits if_splits)
qed

lemma first_segment_label:
  "CHR ''-'' \<notin> set label \<Longrightarrow> first_segment (label @ CHR ''-'' # suffix) = label"
  by (induction label) (auto simp: first_segment_def)

lemma scan_dirs_Cons:
  "scan_dirs listdir root (d # rest) acc =
     (case listdir (os_path_join root [d]) of
        Inl e \<Rightarrow> Inl e
      | Inr names \<Rightarrow>
          scan_dirs listdir root rest (AList.update (first_segment d) (files_beneath root d names) acc))"
  by (cases "listdir (os_path_join root [d])")
     (simp_all add: split_str_first first_segment_def files_beneath_def)

lemma scan_dirs_other:
  "scan_dirs listdir root dirs acc = Inr data_pair \<Longrightarrow> k \<notin> first_segment ` set dirs \<Longrightarrow>
   map_of data_pair k = map_of acc k"
proof (induction dirs arbitrary: acc)
  case Nil
  then show ?case by simp
next
  case (Cons d dirs)
  from Cons.prems(1) obtain names where
    names: "listdir (os_path_join root [d]) = Inr names"
    and rest: "scan_dirs listdir root dirs (AList.update (first_segment d) (files_beneath root d names) acc) = Inr data_pair"
    by (auto simp: scan_dirs_Cons simp del: scan_dirs.simps split: sum.splits)
  from Cons.prems(2) have k: "k \<noteq> first_segment d" and k': "k \<notin> first_segment ` set dirs" by auto
  from Cons.IH [OF rest k'] k show ?case by (simp add: update_conv')
qed

lemma scan_dirs_last:
  "scan_dirs listdir root (pre @ d # post) acc = Inr data_pair \<Longrightarrow>
   first_segment d \<notin> first_segment ` set post \<Longrightarrow>
   \<exists>names. listdir (os_path_join root [d]) = Inr names
     \<and> map_of data_pair (first_segment d) = Some (files_beneath root d names)"
proof (induction pre arbitrary: acc)
  case Nil
  from Nil(1) obtain names where
    names: "listdir (os_path_join root [d]) = Inr names"
    and rest: "scan_dirs listdir root post (AList.update (first_segment d) (files_beneath root d names) acc) = Inr data_pair"
    by (auto simp: scan_dirs_Cons simp del: scan_dirs.simps split: sum.splits)
  from scan_dirs_other [OF rest Nil(2)] names show ?case by (simp add: update_conv')
next
  case (Cons a pre)
  from Cons.prems(1) obtain names where
    rest: "scan_dirs listdir root (pre @ d # post) (AList.update (first_segment a) (files_beneath root a names) acc) = Inr data_pair"
    by (auto simp: scan_dirs_Cons simp del: scan_dirs.simps split: sum.splits)
  from Cons.IH [OF rest Cons.prems(2)] show ?case .
qed

lemma scan_dirs_keys:
  "scan_dirs listdir root dirs acc = Inr data_pair \<Longrightarrow>
   fst ` set data_pair = fst ` set acc \<union> first_segment ` set dirs"
proof (induction dirs arbitrary: acc)
  case Nil
  then show ?case by simp
next
  case (Cons d dirs)
  from Cons.prems obtain names where
    rest: "scan_dirs listdir root dirs (AList.update (first_segment d) (files_beneath root d names) acc) = Inr data_pair"
    by (auto simp: scan_dirs_Cons simp del: scan_dirs.simps split: sum.splits)
  from Cons.IH [OF rest] show ?case by (simp add: dom_update)
qed

lemma scan_dirs_distinct:
  "scan_dirs listdir root dirs acc = Inr data_pair \<Longrightarrow> distinct (map fst acc) \<Longrightarrow>
   distinct (map fst data_pair)"
proof (induction dirs arbitrary: acc)
  case Nil
  then show ?case by simp
next
  case (Cons d dirs)
  from Cons.prems(1) obtain names where
    rest: "scan_dirs listdir root dirs (AList.update (first_segment d) (files_beneath root d names) acc) = Inr data_pair"
    by (auto simp: scan_dirs_Cons simp del: scan_dirs.simps split: sum.splits)
  from Cons.IH [OF rest] Cons.prems(2) show ?case by (simp add: distinct_update)
qed

lemma clash_scan:
  "burapha_split_generators example_dl clash_listdir (config_constructor ''digit'' ''source'') =
     Inr [\<lparr> sg_name = ''train'',
            sg_filepath = [(''00'', [''/data/train/00-b/y.png'']), (''01'', [''/data/train/01-c/z.png''])],
            sg_split = ''train'' \<rparr>,
          \<lparr> sg_name = ''test'',
            sg_filepath = [(''00'', [''/data/train/00-b/y.png'']), (''01'', [''/data/train/01-c/z.png''])],
            sg_split = ''test'' \<rparr>]"
  by code_simp

lemma split_generators_index:
  assumes "burapha_split_generators dl listdir cfg = Inr gens" and "task_of cfg = Inr task"
  shows "\<exists>dirs data_pair.
           listdir (train_path_of dl task) = Inr dirs
         \<and> scan_dirs listdir (train_path_of dl task) dirs [] = Inr data_pair
         \<and> gens = [\<lparr> sg_name = ''train'', sg_filepath = data_pair, sg_split = ''train'' \<rparr>,
                    \<lparr> sg_name = ''test'', sg_filepath = data_pair, sg_split = ''test'' \<rparr>]"
  using assms by (auto simp: burapha_split_generators_def Let_def split: sum.splits if_splits)

















lemma weight_split:
  "(if is_train r = 1 then length (id_caption r) else 0) + (if is_train r = 0 then length (id_caption r) else 0)
     = caption_weight r"
  by (simp add: caption_weight_def)











section \<open>The claims\<close>

text \<open>
  C4. Round trip of label resolution under the source schema: for a directory label that is
  a member of the enumeration of the task, the loop body yields a record whose label list
  holds one integer, and indexing the enumeration with that integer gives the label back.
  The same holds for every pair the generator yields: the record at position \<open>j\<close> carries
  the file of the \<open>j\<close>-th item of the index and the code of that item's label.
\<close>

theorem source_label_round_trip:
  assumes "task_of cfg = Inr task" and "schema cfg = ''source''"
  shows "(key \<in> set (enumeration task) \<longrightarrow>
            (\<exists>c. example_of ''source'' task key img counter =
                    Inr (Some (Source \<lparr> src_id = str_nat counter, src_image_paths = img, src_label = [c] \<rparr>))
                \<and> c < length (enumeration task) \<and> enumeration task ! c = key))
       \<and> (\<forall>j < length (fst (burapha_generate_examples cfg filepath split)).
            \<exists>c. snd (fst (burapha_generate_examples cfg filepath split) ! j) =
                   Source \<lparr> src_id = str_nat j, src_image_paths = snd (items_of filepath ! j), src_label = [c] \<rparr>
               \<and> c < length (enumeration task) \<and> enumeration task ! c = fst (items_of filepath ! j))"
proof (intro conjI impI allI)
  assume "key \<in> set (enumeration task)"
  then show "\<exists>c. example_of ''source'' task key img counter =
                    Inr (Some (Source \<lparr> src_id = str_nat counter, src_image_paths = img, src_label = [c] \<rparr>))
                \<and> c < length (enumeration task) \<and> enumeration task ! c = key"
    using code_of_nth [of key task] by (simp add: example_of_eq declared_def record_of_def)
next
  fix j assume j: "j < length (fst (burapha_generate_examples cfg filepath split))"
  have d: "declared (schema cfg)" using assms(2) by (simp add: declared_def)
  from yielded_record [OF d assms(1) j] code_of_nth [of "fst (items_of filepath ! j)" task]
  show "\<exists>c. snd (fst (burapha_generate_examples cfg filepath split) ! j) =
                   Source \<lparr> src_id = str_nat j, src_image_paths = snd (items_of filepath ! j), src_label = [c] \<rparr>
               \<and> c < length (enumeration task) \<and> enumeration task ! c = fst (items_of filepath ! j)"
    using assms(2) by (simp add: record_of_def)
qed

theorem source_label_round_trip_witness:
  "task_of (config_constructor ''digit'' ''source'') = Inr ''digit''
   \<and> schema (config_constructor ''digit'' ''source'') = ''source''
   \<and> ''05'' \<in> set (enumeration ''digit'')
   \<and> (1::nat) < length (fst (burapha_generate_examples (config_constructor ''digit'' ''source'')
                               [(''05'', [''a.png'', ''b.png''])] ''train''))
   \<and> (\<exists>c. snd (fst (burapha_generate_examples (config_constructor ''digit'' ''source'')
                       [(''05'', [''a.png'', ''b.png''])] ''train'') ! 1) =
              Source \<lparr> src_id = str_nat 1, src_image_paths = ''b.png'', src_label = [c] \<rparr>
          \<and> enumeration ''digit'' ! c = ''05'')"
proof -
  have t: "task_of (config_constructor ''digit'' ''source'') = Inr ''digit''" by (rule digit_task)
  have s: "schema (config_constructor ''digit'' ''source'') = ''source''"
    by (simp add: config_constructor_def)
  have m: "''05'' \<in> set (enumeration ''digit'')" by code_simp
  have l: "(1::nat) < length (fst (burapha_generate_examples (config_constructor ''digit'' ''source'')
                               [(''05'', [''a.png'', ''b.png''])] ''train''))"
    by (simp add: run_digit_source)
  have i: "items_of [(''05'', [''a.png'', ''b.png''])] ! 1 = (''05'', ''b.png'')" by simp
  from source_label_round_trip [OF t s, of "''05''" "''a.png''" 0 "[(''05'', [''a.png'', ''b.png''])]" "''train''"] l i
  have "\<exists>c. snd (fst (burapha_generate_examples (config_constructor ''digit'' ''source'')
                       [(''05'', [''a.png'', ''b.png''])] ''train'') ! 1) =
              Source \<lparr> src_id = str_nat 1, src_image_paths = ''b.png'', src_label = [c] \<rparr>
          \<and> enumeration ''digit'' ! c = ''05''"
    by auto
  with t s m l show ?thesis by blast
qed

text \<open>
  C8. Under the unified image-text schema every record of the handwriting loader has no
  text and no context, and its label list holds exactly the position of the item's label
  in the enumeration of the task (the value \<^verbatim>\<open>list.index\<close> returns).
\<close>

theorem imtext_without_caption:
  assumes "task_of cfg = Inr task" and "schema cfg = ''seacrowd_imtext''"
    and "j < length (fst (burapha_generate_examples cfg filepath split))"
  shows "\<exists>c. fst (burapha_generate_examples cfg filepath split) ! j =
               (j, Imtext \<lparr> im_id = str_nat j, im_image_paths = [snd (items_of filepath ! j)], im_texts = None,
                            im_metadata = \<lparr> md_context = None, md_labels = [c] \<rparr> \<rparr>)
            \<and> label_code task (fst (items_of filepath ! j)) = Inr c
            \<and> c < length (enumeration task) \<and> enumeration task ! c = fst (items_of filepath ! j)"
proof -
  have d: "declared (schema cfg)" using assms(2) by (simp add: declared_def)
  from yielded_record [OF d assms(1) assms(3)] code_of_nth [of "fst (items_of filepath ! j)" task]
  show ?thesis
    using assms(2) by (simp add: record_of_def label_code_eq)
qed

theorem imtext_without_caption_witness:
  "task_of (config_constructor ''digit'' ''seacrowd_imtext'') = Inr ''digit''
   \<and> schema (config_constructor ''digit'' ''seacrowd_imtext'') = ''seacrowd_imtext''
   \<and> (0::nat) < length (fst (burapha_generate_examples (config_constructor ''digit'' ''seacrowd_imtext'')
                               [(''05'', [''a.png''])] ''test''))
   \<and> (\<exists>c. fst (burapha_generate_examples (config_constructor ''digit'' ''seacrowd_imtext'')
                  [(''05'', [''a.png''])] ''test'') ! 0 =
              (0, Imtext \<lparr> im_id = str_nat 0, im_image_paths = [''a.png''], im_texts = None,
                           im_metadata = \<lparr> md_context = None, md_labels = [c] \<rparr> \<rparr>)
          \<and> label_code ''digit'' ''05'' = Inr c \<and> enumeration ''digit'' ! c = ''05'')"
proof -
  have t: "task_of (config_constructor ''digit'' ''seacrowd_imtext'') = Inr ''digit''" by (rule digit_task)
  have s: "schema (config_constructor ''digit'' ''seacrowd_imtext'') = ''seacrowd_imtext''"
    by (simp add: config_constructor_def)
  have l: "(0::nat) < length (fst (burapha_generate_examples (config_constructor ''digit'' ''seacrowd_imtext'')
                               [(''05'', [''a.png''])] ''test''))"
    by (simp add: run_digit_imtext)
  have i: "items_of [(''05'', [''a.png''])] ! 0 = (''05'', ''a.png'')" by simp
  from imtext_without_caption [OF t s l] i
  have "\<exists>c. fst (burapha_generate_examples (config_constructor ''digit'' ''seacrowd_imtext'')
                  [(''05'', [''a.png''])] ''test'') ! 0 =
              (0, Imtext \<lparr> im_id = str_nat 0, im_image_paths = [''a.png''], im_texts = None,
                           im_metadata = \<lparr> md_context = None, md_labels = [c] \<rparr> \<rparr>)
          \<and> label_code ''digit'' ''05'' = Inr c \<and> enumeration ''digit'' ! c = ''05''"
    by auto
  with t s l show ?thesis by blast
qed

text \<open>
  C9. Label lookup is deterministic: two runs of the generator for the same task (whatever
  their schema, index and split) give every item filed under label \<open>L\<close> the same label
  list, the one integer that the lookup of \<open>L\<close> in the enumeration returns.
\<close>

theorem label_code_deterministic:
  assumes "task_of cfg1 = Inr task" and "task_of cfg2 = Inr task"
    and "declared (schema cfg1)" and "declared (schema cfg2)"
    and "j1 < length (fst (burapha_generate_examples cfg1 filepath1 split1))"
    and "j2 < length (fst (burapha_generate_examples cfg2 filepath2 split2))"
    and "fst (items_of filepath1 ! j1) = L" and "fst (items_of filepath2 ! j2) = L"
  shows "labels_of (snd (fst (burapha_generate_examples cfg1 filepath1 split1) ! j1)) =
         labels_of (snd (fst (burapha_generate_examples cfg2 filepath2 split2) ! j2))
       \<and> label_code task L = Inr (code_of task L)
       \<and> labels_of (snd (fst (burapha_generate_examples cfg1 filepath1 split1) ! j1)) = [code_of task L]"
proof -
  from yielded_record [OF assms(3) assms(1) assms(5)] assms(7)
  have 1: "labels_of (snd (fst (burapha_generate_examples cfg1 filepath1 split1) ! j1)) = [code_of task L]"
    and L: "L \<in> set (enumeration task)"
    by (simp_all add: record_of_def labels_of_def)
  from yielded_record [OF assms(4) assms(2) assms(6)] assms(8)
  have 2: "labels_of (snd (fst (burapha_generate_examples cfg2 filepath2 split2) ! j2)) = [code_of task L]"
    by (simp add: record_of_def labels_of_def)
  from 1 2 L show ?thesis by (simp add: label_code_eq)
qed

theorem label_code_deterministic_witness:
  "task_of (config_constructor ''digit'' ''source'') = Inr ''digit''
   \<and> task_of (config_constructor ''digit'' ''seacrowd_imtext'') = Inr ''digit''
   \<and> declared (schema (config_constructor ''digit'' ''source''))
   \<and> declared (schema (config_constructor ''digit'' ''seacrowd_imtext''))
   \<and> (1::nat) < length (fst (burapha_generate_examples (config_constructor ''digit'' ''source'')
                               [(''05'', [''a.png'', ''b.png''])] ''train''))
   \<and> (0::nat) < length (fst (burapha_generate_examples (config_constructor ''digit'' ''seacrowd_imtext'')
                               [(''05'', [''a.png''])] ''test''))
   \<and> fst (items_of [(''05'', [''a.png'', ''b.png''])] ! 1) = ''05''
   \<and> fst (items_of [(''05'', [''a.png''])] ! 0) = ''05''
   \<and> labels_of (snd (fst (burapha_generate_examples (config_constructor ''digit'' ''source'')
                               [(''05'', [''a.png'', ''b.png''])] ''train'') ! 1)) =
     labels_of (snd (fst (burapha_generate_examples (config_constructor ''digit'' ''seacrowd_imtext'')
                               [(''05'', [''a.png''])] ''test'') ! 0))"
proof -
  have t1: "task_of (config_constructor ''digit'' ''source'') = Inr ''digit''" by (rule digit_task)
  have t2: "task_of (config_constructor ''digit'' ''seacrowd_imtext'') = Inr ''digit''" by (rule digit_task)
  have d1: "declared (schema (config_constructor ''digit'' ''source''))"
    by (simp add: declared_def config_constructor_def)
  have d2: "declared (schema (config_constructor ''digit'' ''seacrowd_imtext''))"
    by (simp add: declared_def config_constructor_def)
  have l1: "(1::nat) < length (fst (burapha_generate_examples (config_constructor ''digit'' ''source'')
                               [(''05'', [''a.png'', ''b.png''])] ''train''))"
    by (simp add: run_digit_source)
  have l2: "(0::nat) < length (fst (burapha_generate_examples (config_constructor ''digit'' ''seacrowd_imtext'')
                               [(''05'', [''a.png''])] ''test''))"
    by (simp add: run_digit_imtext)
  have i1: "fst (items_of [(''05'', [''a.png'', ''b.png''])] ! 1) = ''05''" by simp
  have i2: "fst (items_of [(''05'', [''a.png''])] ! 0) = ''05''" by simp
  from label_code_deterministic [OF t1 t2 d1 d2 l1 l2 i1 i2]
  have "labels_of (snd (fst (burapha_generate_examples (config_constructor ''digit'' ''source'')
                               [(''05'', [''a.png'', ''b.png''])] ''train'') ! 1)) =
     labels_of (snd (fst (burapha_generate_examples (config_constructor ''digit'' ''seacrowd_imtext'')
                               [(''05'', [''a.png''])] ''test'') ! 0))" by simp
  with t1 t2 d1 d2 l1 l2 i1 i2 show ?thesis by blast
qed

text \<open>
  C10. In the handwriting loader both split generators receive the one index built from the
  train directory: the result of \<^verbatim>\<open>_split_generators\<close> is unchanged when the test download
  location and everything the file system holds outside the train directory and its listed
  children change, the two generators carry the same index, and the example generator
  does not read its split argument, so train and test yield the same sequence of pairs.
\<close>

theorem train_and_test_share_the_train_index:
  assumes "task_of cfg = Inr task"
    and "dl' ''train'' = dl ''train''"
    and "listdir' (train_path_of dl task) = listdir (train_path_of dl task)"
    and "\<forall>names. listdir (train_path_of dl task) = Inr names \<longrightarrow>
           (\<forall>d \<in> set names. listdir' (os_path_join (train_path_of dl task) [d]) =
                              listdir (os_path_join (train_path_of dl task) [d]))"
  shows "burapha_split_generators dl' listdir' cfg = burapha_split_generators dl listdir cfg
       \<and> (\<forall>gens. burapha_split_generators dl listdir cfg = Inr gens \<longrightarrow>
            (\<exists>data_pair.
               gens = [\<lparr> sg_name = ''train'', sg_filepath = data_pair, sg_split = ''train'' \<rparr>,
                       \<lparr> sg_name = ''test'', sg_filepath = data_pair, sg_split = ''test'' \<rparr>]
             \<and> burapha_generate_examples cfg data_pair ''train'' =
               burapha_generate_examples cfg data_pair ''test''))"
proof (intro conjI allI impI)
  have tp: "train_path_of dl' task = train_path_of dl task"
    using assms(2) by (simp add: train_path_of_def)
  show "burapha_split_generators dl' listdir' cfg = burapha_split_generators dl listdir cfg"
  proof (cases "listdir (train_path_of dl task)")
    case (Inl e)
    then show ?thesis
      using assms(1) assms(3) by (simp add: burapha_split_generators_def tp)
  next
    case (Inr names)
    have "scan_dirs listdir' (train_path_of dl task) names [] =
          scan_dirs listdir (train_path_of dl task) names []"
      using assms(4) Inr by (intro scan_dirs_cong) simp
    then show ?thesis
      using assms(1) assms(3) Inr by (simp add: burapha_split_generators_def tp)
  qed
next
  fix gens assume g: "burapha_split_generators dl listdir cfg = Inr gens"
  then obtain data_pair where
    "gens = [\<lparr> sg_name = ''train'', sg_filepath = data_pair, sg_split = ''train'' \<rparr>,
             \<lparr> sg_name = ''test'', sg_filepath = data_pair, sg_split = ''test'' \<rparr>]"
    using assms(1)
    by (auto simp: burapha_split_generators_def Let_def split: sum.splits if_splits)
  then show "\<exists>data_pair.
               gens = [\<lparr> sg_name = ''train'', sg_filepath = data_pair, sg_split = ''train'' \<rparr>,
                       \<lparr> sg_name = ''test'', sg_filepath = data_pair, sg_split = ''test'' \<rparr>]
             \<and> burapha_generate_examples cfg data_pair ''train'' =
               burapha_generate_examples cfg data_pair ''test''"
    using generate_ignores_split [of cfg _ "''train''" "''test''"] by blast
qed

theorem train_and_test_share_the_train_index_witness:
  "burapha_split_generators example_dl' example_listdir' (config_constructor ''digit'' ''source'') =
   burapha_split_generators example_dl example_listdir (config_constructor ''digit'' ''source'')
   \<and> example_listdir' ''/elsewhere/test'' \<noteq> example_listdir ''/elsewhere/test''
   \<and> example_dl' ''test'' \<noteq> example_dl ''test''
   \<and> burapha_generate_examples (config_constructor ''digit'' ''source'')
        [(''00'', [''/data/train/00-zero/a.png'']),
         (''01'', [''/data/train/01-one/b.png'', ''/data/train/01-one/c.png''])] ''train'' =
      burapha_generate_examples (config_constructor ''digit'' ''source'')
        [(''00'', [''/data/train/00-zero/a.png'']),
         (''01'', [''/data/train/01-one/b.png'', ''/data/train/01-one/c.png''])] ''test''"
proof -
  have t: "task_of (config_constructor ''digit'' ''source'') = Inr ''digit''" by (rule digit_task)
  have d: "example_dl' ''train'' = example_dl ''train''"
    by (simp add: example_dl_def example_dl'_def)
  have r: "example_listdir' (train_path_of example_dl ''digit'') =
           example_listdir (train_path_of example_dl ''digit'')"
    by (simp add: example_train_path example_listdir'_def)
  have s: "\<forall>names. example_listdir (train_path_of example_dl ''digit'') = Inr names \<longrightarrow>
             (\<forall>d \<in> set names.
                example_listdir' (os_path_join (train_path_of example_dl ''digit'') [d]) =
                example_listdir (os_path_join (train_path_of example_dl ''digit'') [d]))"
    by (auto simp: example_train_path example_listdir_def example_listdir'_def os_path_join_def join_step_def)
  have n1: "example_listdir' ''/elsewhere/test'' \<noteq> example_listdir ''/elsewhere/test''"
    by (simp add: example_listdir_def example_listdir'_def)
  have n2: "example_dl' ''test'' \<noteq> example_dl ''test''"
    by (simp add: example_dl_def example_dl'_def)
  from train_and_test_share_the_train_index
         [where dl = example_dl and dl' = example_dl' and listdir = example_listdir
            and listdir' = example_listdir', OF t d r s] example_scan n1 n2
  show ?thesis by simp
qed

text \<open>
  C2, as the code has it. With a schema identifier outside the declared set no loader
  yields a pair. The fatal error comes from the generator in the speech loader only
  (ValueError, raised after the loops have found no schema to serve); in the handwriting
  loader it is \<^verbatim>\<open>_info\<close> that rejects the schema, with NotImplementedError, while the
  generator itself has no branch for it.
\<close>

theorem unknown_schema_yields_nothing:
  "(schema cfg \<noteq> ''source'' \<and> schema cfg \<notin> set (SUPPORTED_SCHEMA_STRINGS schema_names) \<longrightarrow>
      mswc_generate_examples schema_names read_parquet cfg paths = ([], Some ValueError))
   \<and> (\<not> declared (schema cfg) \<longrightarrow>
        fst (burapha_generate_examples cfg filepath split) = []
        \<and> (\<forall>task. task_of cfg = Inr task \<longrightarrow> burapha_info cfg = Inl NotImplementedError))
   \<and> (schema cfg \<noteq> ''source'' \<and> schema cfg \<noteq> ''seacrowd_'' @ SEACROWD_SCHEMA_NAME \<longrightarrow>
        fst (cub_generate_examples cfg data split) = [])"
proof (intro conjI impI allI)
  assume "schema cfg \<noteq> ''source'' \<and> schema cfg \<notin> set (SUPPORTED_SCHEMA_STRINGS schema_names)"
  then show "mswc_generate_examples schema_names read_parquet cfg paths = ([], Some ValueError)"
    by (simp add: mswc_generate_examples_def gen_supported_unknown)
next
  assume "\<not> declared (schema cfg)"
  then show "fst (burapha_generate_examples cfg filepath split) = []"
    by (cases "task_of cfg") (simp_all add: burapha_generate_undeclared burapha_generate_no_task)
next
  fix task assume "\<not> declared (schema cfg)" and "task_of cfg = Inr task"
  then show "burapha_info cfg = Inl NotImplementedError"
    by (simp add: burapha_info_def declared_def)
next
  assume "schema cfg \<noteq> ''source'' \<and> schema cfg \<noteq> ''seacrowd_'' @ SEACROWD_SCHEMA_NAME"
  then show "fst (cub_generate_examples cfg data split) = []"
    by (simp add: cub_generate_examples_def SEACROWD_SCHEMA_NAME_def)
qed

theorem unknown_schema_yields_nothing_witness:
  "schema bogus_config \<noteq> ''source'' \<and> schema bogus_config \<noteq> ''seacrowd_imtext''
   \<and> schema bogus_config \<notin> set (SUPPORTED_SCHEMA_STRINGS [''sptext''])
   \<and> task_of bogus_config = Inr ''digit''
   \<and> mswc_generate_examples [''sptext''] (\<lambda>p. Inr [p]) bogus_config [''a.parquet''] = ([], Some ValueError)
   \<and> fst (burapha_generate_examples bogus_config [(''05'', [''a.png''])] ''train'') = []
   \<and> burapha_info bogus_config = Inl NotImplementedError
   \<and> fst (cub_generate_examples bogus_config [] ''train'') = []"
proof -
  have s: "schema bogus_config = ''bogus_schema''"
    by (simp add: bogus_config_def config_constructor_def)
  have t: "task_of bogus_config = Inr ''digit''" by (simp add: bogus_config_def digit_task)
  have n: "schema bogus_config \<notin> set (SUPPORTED_SCHEMA_STRINGS [''sptext''])"
    by (simp add: s SUPPORTED_SCHEMA_STRINGS_def)
  have d: "\<not> declared (schema bogus_config)" by (simp add: s declared_def)
  have c: "schema bogus_config \<noteq> ''seacrowd_'' @ SEACROWD_SCHEMA_NAME"
    by (simp add: s SEACROWD_SCHEMA_NAME_def)
  from unknown_schema_yields_nothing
         [of bogus_config "[''sptext'']" "\<lambda>p. Inr [p]" "[''a.parquet'']" "[(''05'', [''a.png''])]" "''train''" "[]"]
       s t n d c
  show ?thesis by simp
qed

theorem unknown_schema_counterexample:
  "schema bogus_config \<notin> schema ` set BUILDER_CONFIGS
   \<and> burapha_generate_examples bogus_config [(''05'', [''a.png''])] ''train'' = ([], None)"
  by (simp add: run_bogus) (simp add: bogus_config_def BUILDER_CONFIGS_def SUBSETS_def config_constructor_def)

text \<open>
  C1, as the code has it. The handwriting loader and the speech loader, under every
  schema, and the caption loader under the unified schema number the yielded pairs
  0, 1, 2, ... with a counter. Under its source schema the caption loader yields each row
  under its index label in the joined table, which the split filter leaves as it was:
  the ids are those of the rows served, in order, strictly increasing over a split (so
  none repeats), but they need not start at 0 and may leave gaps.
\<close>

theorem ids_of_yielded_pairs:
  "sequential_from 0 (fst (burapha_generate_examples cfg filepath split))
   \<and> sequential_from 0 (fst (mswc_generate_examples schema_names read_parquet cfg paths))
   \<and> (schema cfg \<noteq> ''source'' \<longrightarrow> sequential_from 0 (fst (cub_generate_examples cfg data split)))
   \<and> (schema cfg = ''source'' \<longrightarrow>
        map fst (fst (cub_generate_examples cfg data split)) =
          take (length (fst (cub_generate_examples cfg data split))) (map fst data))
   \<and> (\<forall>gens g. cub_split_generators p df_image df_label df_split dataset = Inr gens \<and> g \<in> set gens \<longrightarrow>
        sorted_wrt (<) (map fst (fst (cub_generate_examples cfg (csg_data g) (csg_split g)))))"
proof (intro conjI impI allI)
  show "sequential_from 0 (fst (burapha_generate_examples cfg filepath split))"
    by (rule burapha_sequential)
next
  show "sequential_from 0 (fst (mswc_generate_examples schema_names read_parquet cfg paths))"
    by (rule mswc_sequential)
next
  assume "schema cfg \<noteq> ''source''"
  then show "sequential_from 0 (fst (cub_generate_examples cfg data split))"
    by (rule cub_imtext_sequential)
next
  assume "schema cfg = ''source''"
  then show "map fst (fst (cub_generate_examples cfg data split)) =
          take (length (fst (cub_generate_examples cfg data split))) (map fst data)"
    using gen_source_keys [of data] by (simp add: cub_generate_examples_def)
next
  fix gens g
  assume "cub_split_generators p df_image df_label df_split dataset = Inr gens \<and> g \<in> set gens"
  then have "sorted_wrt (<) (map fst (csg_data g))" by (auto intro: split_frames_increasing)
  then show "sorted_wrt (<) (map fst (fst (cub_generate_examples cfg (csg_data g) (csg_split g))))"
    by (rule cub_keys_increasing)
qed

theorem ids_of_yielded_pairs_witness:
  "schema (CUB_BUILDER_CONFIGS ! 1) \<noteq> ''source''
   \<and> sequential_from 0 (fst (cub_generate_examples (CUB_BUILDER_CONFIGS ! 1) example_train ''train''))
   \<and> schema (CUB_BUILDER_CONFIGS ! 0) = ''source''
   \<and> map fst (fst (cub_generate_examples (CUB_BUILDER_CONFIGS ! 0) example_train ''train'')) =
       take (length (fst (cub_generate_examples (CUB_BUILDER_CONFIGS ! 0) example_train ''train'')))
            (map fst example_train)
   \<and> cub_split_generators ''/d'' example_images example_labels example_splits example_captions =
       Inr [\<lparr> csg_name = ''train'', csg_data = example_train, csg_split = ''train'' \<rparr>,
            \<lparr> csg_name = ''test'', csg_data = example_test, csg_split = ''test'' \<rparr>]
   \<and> sorted_wrt (<) (map fst (fst (cub_generate_examples (CUB_BUILDER_CONFIGS ! 0) example_train ''train'')))"
proof -
  have s1: "schema (CUB_BUILDER_CONFIGS ! 1) \<noteq> ''source''"
    by (simp add: CUB_BUILDER_CONFIGS_def)
  have s0: "schema (CUB_BUILDER_CONFIGS ! 0) = ''source''"
    by (simp add: CUB_BUILDER_CONFIGS_def)
  note a = ids_of_yielded_pairs [of "CUB_BUILDER_CONFIGS ! 1" "[]" "''train''" "[]" "\<lambda>p. Inr ([]::unit list)" "[]"
             example_train "''/d''" example_images example_labels example_splits example_captions]
  note b = ids_of_yielded_pairs [of "CUB_BUILDER_CONFIGS ! 0" "[]" "''train''" "[]" "\<lambda>p. Inr ([]::unit list)" "[]"
             example_train "''/d''" example_images example_labels example_splits example_captions]
  from a s1 have 1: "sequential_from 0 (fst (cub_generate_examples (CUB_BUILDER_CONFIGS ! 1) example_train ''train''))"
    by blast
  from b s0 have 2: "map fst (fst (cub_generate_examples (CUB_BUILDER_CONFIGS ! 0) example_train ''train'')) =
       take (length (fst (cub_generate_examples (CUB_BUILDER_CONFIGS ! 0) example_train ''train'')))
            (map fst example_train)"
    by blast
  from b have "\<forall>gens g. cub_split_generators ''/d'' example_images example_labels example_splits example_captions = Inr gens
                  \<and> g \<in> set gens \<longrightarrow>
        sorted_wrt (<) (map fst (fst (cub_generate_examples (CUB_BUILDER_CONFIGS ! 0) (csg_data g) (csg_split g))))"
    by blast
  from this [rule_format, of "[\<lparr> csg_name = ''train'', csg_data = example_train, csg_split = ''train'' \<rparr>,
            \<lparr> csg_name = ''test'', csg_data = example_test, csg_split = ''test'' \<rparr>]"
            "\<lparr> csg_name = ''train'', csg_data = example_train, csg_split = ''train'' \<rparr>"] example_frames
  have 3: "sorted_wrt (<) (map fst (fst (cub_generate_examples (CUB_BUILDER_CONFIGS ! 0) example_train ''train'')))"
    by simp
  from s1 1 s0 2 example_frames 3 show ?thesis by blast
qed

theorem ids_of_yielded_pairs_counterexample:
  "CUB_BUILDER_CONFIGS ! 0 \<in> set CUB_BUILDER_CONFIGS
   \<and> cub_split_generators ''/d'' example_images example_labels example_splits example_captions =
       Inr [\<lparr> csg_name = ''train'', csg_data = example_train, csg_split = ''train'' \<rparr>,
            \<lparr> csg_name = ''test'', csg_data = example_test, csg_split = ''test'' \<rparr>]
   \<and> map fst (fst (cub_generate_examples (CUB_BUILDER_CONFIGS ! 0) example_train ''train'')) = [1]
   \<and> snd (cub_generate_examples (CUB_BUILDER_CONFIGS ! 0) example_train ''train'') = None
   \<and> \<not> sequential_from 0 (fst (cub_generate_examples (CUB_BUILDER_CONFIGS ! 0) example_train ''train''))"
proof -
  have "snd (cub_generate_examples (CUB_BUILDER_CONFIGS ! 0) example_train ''train'') = None"
    by code_simp
  moreover have "\<not> sequential_from 0 (fst (cub_generate_examples (CUB_BUILDER_CONFIGS ! 0) example_train ''train''))"
  proof -
    have "length (map fst (fst (cub_generate_examples (CUB_BUILDER_CONFIGS ! 0) example_train ''train''))) = 1"
      by (simp only: example_train_source) simp
    then have "length (fst (cub_generate_examples (CUB_BUILDER_CONFIGS ! 0) example_train ''train'')) = 1"
      by simp
    with example_train_source show ?thesis by (simp add: sequential_from_def)
  qed
  moreover have "CUB_BUILDER_CONFIGS ! 0 \<in> set CUB_BUILDER_CONFIGS" by (simp add: CUB_BUILDER_CONFIGS_def)
  ultimately show ?thesis using example_frames example_train_source by blast
qed

text \<open>
  C5, as the code has it. Under a declared schema, label-code resolution in the handwriting
  loader is a lookup by value: a label of the enumeration resolves to its first position,
  any other label raises ValueError. The generation pass ends with that error exactly when
  some file is filed under a label outside the enumeration; what it has yielded until then
  are the records of the items before the first such entry, in order, none skipped and none
  given a default; when every item's label is in the enumeration the pass ends normally.
  The caption loader reads the class table by key: an id of the table resolves to its
  name, any other id raises KeyError. On every frame that \<^verbatim>\<open>_split_generators\<close> builds,
  under the source schema and under the unified schema alike, the pass yields the records
  of the rows before the first row whose class id is not in the table and ends with
  KeyError there, and it ends normally when every row's class id is in the table.
\<close>

theorem label_resolution_is_fatal:
  assumes "declared (schema cfg)" and "task_of cfg = Inr task"
  shows "(key \<in> set (enumeration task) \<longrightarrow>
            (\<exists>c. label_code task key = Inr c \<and> c < length (enumeration task)
                 \<and> enumeration task ! c = key \<and> (\<forall>j < c. enumeration task ! j \<noteq> key)))
       \<and> (key \<notin> set (enumeration task) \<longrightarrow> label_code task key = Inl ValueError)
       \<and> snd (burapha_generate_examples cfg filepath split) =
           (if \<exists>(key, imgs) \<in> set filepath. imgs \<noteq> [] \<and> key \<notin> set (enumeration task)
            then Some ValueError else None)
       \<and> fst (burapha_generate_examples cfg filepath split) =
           numbered (schema cfg) task 0 (items_of (takeWhile (resolvable task) filepath))
       \<and> ((cid, cname) \<in> set IMAGE_CLASS \<longrightarrow> image_class cid = Inr cname \<and> class_name_of cid = cname)
       \<and> (cid \<notin> fst ` set IMAGE_CLASS \<longrightarrow> image_class cid = Inl KeyError)
       \<and> (\<forall>gens g. cub_split_generators data_path_image df_image df_label df_split dataset = Inr gens
                    \<and> g \<in> set gens \<longrightarrow>
            (schema ccfg = ''source'' \<longrightarrow>
               cub_generate_examples ccfg (csg_data g) (csg_split g) =
                 (map (\<lambda>(k, r). (k, source_record r)) (takeWhile class_known (csg_data g)),
                  if list_all class_known (csg_data g) then None else Some KeyError))
          \<and> (schema ccfg = ''seacrowd_imtext'' \<longrightarrow>
               cub_generate_examples ccfg (csg_data g) (csg_split g) =
                 (unified_records (takeWhile class_known (csg_data g)) 0,
                  if list_all class_known (csg_data g) then None else Some KeyError)))"
proof (intro conjI impI allI)
  assume "key \<in> set (enumeration task)"
  then show "\<exists>c. label_code task key = Inr c \<and> c < length (enumeration task)
                 \<and> enumeration task ! c = key \<and> (\<forall>j < c. enumeration task ! j \<noteq> key)"
    using code_of_nth [of key task] first_position_least [of _ key "enumeration task"]
    by (auto simp: label_code_eq code_of_def)
next
  assume "key \<notin> set (enumeration task)"
  then show "label_code task key = Inl ValueError" by (simp add: label_code_eq)
next
  show "snd (burapha_generate_examples cfg filepath split) =
           (if \<exists>(key, imgs) \<in> set filepath. imgs \<noteq> [] \<and> key \<notin> set (enumeration task)
            then Some ValueError else None)"
    using assms by (simp add: burapha_generate_declared all_resolvable_iff)
next
  show "fst (burapha_generate_examples cfg filepath split) =
           numbered (schema cfg) task 0 (items_of (takeWhile (resolvable task) filepath))"
    using assms by (simp add: burapha_generate_declared)
next
  assume "(cid, cname) \<in> set IMAGE_CLASS"
  then show "image_class cid = Inr cname" by (rule image_class_entry)
next
  assume "(cid, cname) \<in> set IMAGE_CLASS"
  then have "image_class cid = Inr cname" by (rule image_class_entry)
  then show "class_name_of cid = cname"
    by (simp add: image_class_def class_name_of_def split: option.splits)
next
  assume "cid \<notin> fst ` set IMAGE_CLASS"
  then show "image_class cid = Inl KeyError" by (rule image_class_unknown)
next
  fix gens g
  assume g: "cub_split_generators data_path_image df_image df_label df_split dataset = Inr gens \<and> g \<in> set gens"
    and s: "schema ccfg = ''source''"
  from g have g1: "cub_split_generators data_path_image df_image df_label df_split dataset = Inr gens"
    and g2: "g \<in> set gens" by simp_all
  have "\<forall>kr \<in> set (csg_data g). joined_row kr" using g1 g2 by (rule split_frames_joined)
  with s show "cub_generate_examples ccfg (csg_data g) (csg_split g) =
                 (map (\<lambda>(k, r). (k, source_record r)) (takeWhile class_known (csg_data g)),
                  if list_all class_known (csg_data g) then None else Some KeyError)"
    by (rule cub_source_eq)
next
  fix gens g
  assume g: "cub_split_generators data_path_image df_image df_label df_split dataset = Inr gens \<and> g \<in> set gens"
    and s: "schema ccfg = ''seacrowd_imtext''"
  from g have g1: "cub_split_generators data_path_image df_image df_label df_split dataset = Inr gens"
    and g2: "g \<in> set gens" by simp_all
  have "\<forall>kr \<in> set (csg_data g). joined_row kr" using g1 g2 by (rule split_frames_joined)
  with s show "cub_generate_examples ccfg (csg_data g) (csg_split g) =
                 (unified_records (takeWhile class_known (csg_data g)) 0,
                  if list_all class_known (csg_data g) then None else Some KeyError)"
    by (rule cub_imtext_eq)
qed

theorem label_resolution_is_fatal_witness:
  "declared (schema (config_constructor ''digit'' ''source''))
   \<and> task_of (config_constructor ''digit'' ''source'') = Inr ''digit''
   \<and> ''05'' \<in> set (enumeration ''digit'') \<and> label_code ''digit'' ''05'' = Inr 5
   \<and> ''99'' \<notin> set (enumeration ''digit'') \<and> label_code ''digit'' ''99'' = Inl ValueError
   \<and> burapha_generate_examples (config_constructor ''digit'' ''source'')
        [(''05'', [''a.png'']), (''99'', [''x.png'']), (''06'', [''y.png''])] ''train'' =
      ([(0, Source \<lparr> src_id = ''0'', src_image_paths = ''a.png'', src_label = [5] \<rparr>)], Some ValueError)
   \<and> (2, ''002.Laysan_Albatross'') \<in> set IMAGE_CLASS \<and> image_class 2 = Inr ''002.Laysan_Albatross''
   \<and> 201 \<notin> fst ` set IMAGE_CLASS \<and> image_class 201 = Inl KeyError
   \<and> cub_split_generators ''/d'' example_images unknown_class_labels all_train_splits three_captions =
       Inr [\<lparr> csg_name = ''train'', csg_data = unknown_class_frame, csg_split = ''train'' \<rparr>,
            \<lparr> csg_name = ''test'', csg_data = [], csg_split = ''test'' \<rparr>]
   \<and> schema (CUB_BUILDER_CONFIGS ! 0) = ''source''
   \<and> cub_generate_examples (CUB_BUILDER_CONFIGS ! 0) unknown_class_frame ''train'' =
       (map (\<lambda>(k, r). (k, source_record r)) (takeWhile class_known unknown_class_frame), Some KeyError)
   \<and> length (fst (cub_generate_examples (CUB_BUILDER_CONFIGS ! 0) unknown_class_frame ''train'')) = 1
   \<and> schema (CUB_BUILDER_CONFIGS ! 1) = ''seacrowd_imtext''
   \<and> cub_generate_examples (CUB_BUILDER_CONFIGS ! 1) unknown_class_frame ''train'' =
       (unified_records (takeWhile class_known unknown_class_frame) 0, Some KeyError)
   \<and> length (fst (cub_generate_examples (CUB_BUILDER_CONFIGS ! 1) unknown_class_frame ''train'')) = 2"
proof -
  let ?cfg = "config_constructor ''digit'' ''source''"
  let ?fp = "[(''05'', [''a.png'']), (''99'', [''x.png'']), (''06'', [''y.png''])]"
  let ?gens = "[\<lparr> csg_name = ''train'', csg_data = unknown_class_frame, csg_split = ''train'' \<rparr>,
                \<lparr> csg_name = ''test'', csg_data = [], csg_split = ''test'' \<rparr>]"
  let ?g = "\<lparr> csg_name = ''train'', csg_data = unknown_class_frame, csg_split = ''train'' \<rparr>"
  have d: "declared (schema ?cfg)" by (simp add: declared_def config_constructor_def)
  have t: "task_of ?cfg = Inr ''digit''" by (rule digit_task)
  have a: "''99'' \<notin> set (enumeration ''digit'')" by code_simp
  have b: "''05'' \<in> set (enumeration ''digit'')" by code_simp
  have b5: "label_code ''digit'' ''05'' = Inr 5" by code_simp
  have e: "(2, ''002.Laysan_Albatross'') \<in> set IMAGE_CLASS" by (simp add: IMAGE_CLASS_def)
  have u: "201 \<notin> fst ` set IMAGE_CLASS" by (simp add: class_table_range)
  have s0: "schema (CUB_BUILDER_CONFIGS ! 0) = ''source''" by (simp add: CUB_BUILDER_CONFIGS_def)
  have s1: "schema (CUB_BUILDER_CONFIGS ! 1) = ''seacrowd_imtext''"
    by (simp add: CUB_BUILDER_CONFIGS_def SEACROWD_SCHEMA_NAME_def)
  have bad: "\<not> list_all class_known unknown_class_frame"
    by (simp add: unknown_class_frame_def class_known_def class_table_range example_row_def)
  note th0 = label_resolution_is_fatal [OF d t, of "''99''" ?fp "''train''" 2 "''002.Laysan_Albatross''"
               "''/d''" example_images unknown_class_labels all_train_splits three_captions "CUB_BUILDER_CONFIGS ! 0"]
  note th1 = label_resolution_is_fatal [OF d t, of "''05''" ?fp "''train''" 201 "''002.Laysan_Albatross''"
               "''/d''" example_images unknown_class_labels all_train_splits three_captions "CUB_BUILDER_CONFIGS ! 1"]
  from th0 a have 1: "label_code ''digit'' ''99'' = Inl ValueError" by blast
  from th0 e have 2: "image_class 2 = Inr ''002.Laysan_Albatross''" by blast
  from th1 u have 3: "image_class 201 = Inl KeyError" by blast
  from th0 have "\<forall>gens g. cub_split_generators ''/d'' example_images unknown_class_labels all_train_splits three_captions = Inr gens
                    \<and> g \<in> set gens \<longrightarrow>
            (schema (CUB_BUILDER_CONFIGS ! 0) = ''source'' \<longrightarrow>
               cub_generate_examples (CUB_BUILDER_CONFIGS ! 0) (csg_data g) (csg_split g) =
                 (map (\<lambda>(k, r). (k, source_record r)) (takeWhile class_known (csg_data g)),
                  if list_all class_known (csg_data g) then None else Some KeyError))"
    by blast
  from this [rule_format, of ?gens ?g] unknown_class_frames s0 bad
  have 4: "cub_generate_examples (CUB_BUILDER_CONFIGS ! 0) unknown_class_frame ''train'' =
       (map (\<lambda>(k, r). (k, source_record r)) (takeWhile class_known unknown_class_frame), Some KeyError)"
    by simp
  from th1 have "\<forall>gens g. cub_split_generators ''/d'' example_images unknown_class_labels all_train_splits three_captions = Inr gens
                    \<and> g \<in> set gens \<longrightarrow>
            (schema (CUB_BUILDER_CONFIGS ! 1) = ''seacrowd_imtext'' \<longrightarrow>
               cub_generate_examples (CUB_BUILDER_CONFIGS ! 1) (csg_data g) (csg_split g) =
                 (unified_records (takeWhile class_known (csg_data g)) 0,
                  if list_all class_known (csg_data g) then None else Some KeyError))"
    by blast
  from this [rule_format, of ?gens ?g] unknown_class_frames s1 bad
  have 5: "cub_generate_examples (CUB_BUILDER_CONFIGS ! 1) unknown_class_frame ''train'' =
       (unified_records (takeWhile class_known unknown_class_frame) 0, Some KeyError)"
    by simp
  have 6: "length (fst (cub_generate_examples (CUB_BUILDER_CONFIGS ! 0) unknown_class_frame ''train'')) = 1"
    by (simp add: unknown_class_source)
  have 7: "length (fst (cub_generate_examples (CUB_BUILDER_CONFIGS ! 1) unknown_class_frame ''train'')) = 2"
    using unknown_class_imtext by simp
  from d t b b5 a 1 run_digit_absent e 2 u 3 unknown_class_frames s0 4 6 s1 5 7 show ?thesis by blast
qed

theorem label_resolution_counterexample:
  "task_of bogus_config = Inr ''digit''
   \<and> ''99'' \<notin> set (enumeration ''digit'')
   \<and> label_code ''digit'' ''99'' = Inl ValueError
   \<and> burapha_generate_examples bogus_config [(''99'', [''x.png''])] ''train'' = ([], None)"
proof -
  have "task_of bogus_config = Inr ''digit''" by (simp add: bogus_config_def digit_task)
  moreover have "''99'' \<notin> set (enumeration ''digit'')" by code_simp
  moreover have "label_code ''digit'' ''99'' = Inl ValueError" by code_simp
  ultimately show ?thesis using run_bogus_absent by blast
qed



text \<open>
  C6, as the code has it. The layout scanner lists the children of the train directory
  and returns a mapping whose keys are exactly the first segments of the children's names
  split on the delimiter, each key once; for a child named label, delimiter, suffix that
  segment is the label. The value for a key is the list of the joined paths of every file
  listed beneath the last child that carries that label, in listing order: a child whose
  label no later child shares has its own files under its label, and an earlier child with
  the same label is overwritten.
\<close>

theorem scanner_index:
  assumes "burapha_split_generators dl listdir cfg = Inr gens" and "task_of cfg = Inr task"
  shows "\<exists>dirs data_pair.
           listdir (train_path_of dl task) = Inr dirs
         \<and> gens = [\<lparr> sg_name = ''train'', sg_filepath = data_pair, sg_split = ''train'' \<rparr>,
                    \<lparr> sg_name = ''test'', sg_filepath = data_pair, sg_split = ''test'' \<rparr>]
         \<and> fst ` set data_pair = first_segment ` set dirs
         \<and> distinct (map fst data_pair)
         \<and> (\<forall>d \<in> set dirs. getitem (split_str CHR ''-'' d) 0 = Inr (first_segment d))
         \<and> (\<forall>label suffix. CHR ''-'' \<notin> set label \<longrightarrow> first_segment (label @ CHR ''-'' # suffix) = label)
         \<and> (\<forall>pre d post. dirs = pre @ d # post \<and> first_segment d \<notin> first_segment ` set post \<longrightarrow>
               (\<exists>names. listdir (os_path_join (train_path_of dl task) [d]) = Inr names
                  \<and> map_of data_pair (first_segment d) =
                      Some (map (\<lambda>file_name. os_path_join (train_path_of dl task) [d, file_name]) names)))"
proof -
  from split_generators_index [OF assms] obtain dirs data_pair where
    dirs: "listdir (train_path_of dl task) = Inr dirs"
    and scan: "scan_dirs listdir (train_path_of dl task) dirs [] = Inr data_pair"
    and gens: "gens = [\<lparr> sg_name = ''train'', sg_filepath = data_pair, sg_split = ''train'' \<rparr>,
                       \<lparr> sg_name = ''test'', sg_filepath = data_pair, sg_split = ''test'' \<rparr>]"
    by blast
  have keys: "fst ` set data_pair = first_segment ` set dirs"
    using scan_dirs_keys [OF scan] by simp
  have dist: "distinct (map fst data_pair)"
    using scan_dirs_distinct [OF scan] by simp
  have seg: "\<forall>d \<in> set dirs. getitem (split_str CHR ''-'' d) 0 = Inr (first_segment d)"
    by (simp add: split_str_first first_segment_def)
  have lab: "\<forall>label suffix. CHR ''-'' \<notin> set label \<longrightarrow> first_segment (label @ CHR ''-'' # suffix) = label"
    by (simp add: first_segment_label)
  have last: "\<forall>pre d post. dirs = pre @ d # post \<and> first_segment d \<notin> first_segment ` set post \<longrightarrow>
               (\<exists>names. listdir (os_path_join (train_path_of dl task) [d]) = Inr names
                  \<and> map_of data_pair (first_segment d) =
                      Some (map (\<lambda>file_name. os_path_join (train_path_of dl task) [d, file_name]) names))"
  proof (intro allI impI)
    fix pre d post
    assume a: "dirs = pre @ d # post \<and> first_segment d \<notin> first_segment ` set post"
    from a scan have s: "scan_dirs listdir (train_path_of dl task) (pre @ d # post) [] = Inr data_pair" by simp
    from a have n: "first_segment d \<notin> first_segment ` set post" by simp
    from scan_dirs_last [OF s n]
    show "\<exists>names. listdir (os_path_join (train_path_of dl task) [d]) = Inr names
                  \<and> map_of data_pair (first_segment d) =
                      Some (map (\<lambda>file_name. os_path_join (train_path_of dl task) [d, file_name]) names)"
      by (simp add: files_beneath_def)
  qed
  from dirs gens keys dist seg lab last show ?thesis by blast
qed

theorem scanner_index_witness:
  "burapha_split_generators example_dl example_listdir (config_constructor ''digit'' ''source'') =
     Inr [\<lparr> sg_name = ''train'',
            sg_filepath = [(''00'', [''/data/train/00-zero/a.png'']),
                           (''01'', [''/data/train/01-one/b.png'', ''/data/train/01-one/c.png''])],
            sg_split = ''train'' \<rparr>,
          \<lparr> sg_name = ''test'',
            sg_filepath = [(''00'', [''/data/train/00-zero/a.png'']),
                           (''01'', [''/data/train/01-one/b.png'', ''/data/train/01-one/c.png''])],
            sg_split = ''test'' \<rparr>]
   \<and> task_of (config_constructor ''digit'' ''source'') = Inr ''digit''
   \<and> example_listdir (train_path_of example_dl ''digit'') = Inr ([''00-zero''] @ ''01-one'' # [])
   \<and> first_segment ''01-one'' \<notin> first_segment ` set []
   \<and> CHR ''-'' \<notin> set ''01'' \<and> first_segment (''01'' @ CHR ''-'' # ''one'') = ''01''
   \<and> example_listdir (os_path_join (train_path_of example_dl ''digit'') [''01-one'']) = Inr [''b.png'', ''c.png'']
   \<and> map_of [(''00'', [''/data/train/00-zero/a.png'']),
              (''01'', [''/data/train/01-one/b.png'', ''/data/train/01-one/c.png''])] (first_segment ''01-one'') =
       Some (map (\<lambda>file_name. os_path_join (train_path_of example_dl ''digit'') [''01-one'', file_name])
                 [''b.png'', ''c.png''])"
proof -
  let ?dp = "[(''00'', [''/data/train/00-zero/a.png'']),
              (''01'', [''/data/train/01-one/b.png'', ''/data/train/01-one/c.png''])]"
  have t: "task_of (config_constructor ''digit'' ''source'') = Inr ''digit''" by (rule digit_task)
  have l: "example_listdir (train_path_of example_dl ''digit'') = Inr ([''00-zero''] @ ''01-one'' # [])"
    by (simp add: example_train_path example_listdir_def)
  have l1: "example_listdir (os_path_join (train_path_of example_dl ''digit'') [''01-one'']) = Inr [''b.png'', ''c.png'']"
    by (simp add: example_train_path example_listdir_def os_path_join_def join_step_def)
  have n: "first_segment ''01-one'' \<notin> first_segment ` set []" by simp
  have c: "CHR ''-'' \<notin> set ''01''" by simp
  from scanner_index [OF example_scan t] obtain dirs data_pair where
    dirs: "example_listdir (train_path_of example_dl ''digit'') = Inr dirs"
    and dp: "[\<lparr> sg_name = ''train'', sg_filepath = ?dp, sg_split = ''train'' \<rparr>,
              \<lparr> sg_name = ''test'', sg_filepath = ?dp, sg_split = ''test'' \<rparr>] =
             [\<lparr> sg_name = ''train'', sg_filepath = data_pair, sg_split = ''train'' \<rparr>,
              \<lparr> sg_name = ''test'', sg_filepath = data_pair, sg_split = ''test'' \<rparr>]"
    and lab: "\<forall>label suffix. CHR ''-'' \<notin> set label \<longrightarrow> first_segment (label @ CHR ''-'' # suffix) = label"
    and last: "\<forall>pre d post. dirs = pre @ d # post \<and> first_segment d \<notin> first_segment ` set post \<longrightarrow>
               (\<exists>names. example_listdir (os_path_join (train_path_of example_dl ''digit'') [d]) = Inr names
                  \<and> map_of data_pair (first_segment d) =
                      Some (map (\<lambda>file_name. os_path_join (train_path_of example_dl ''digit'') [d, file_name]) names))"
    by blast
  from dp have dp': "data_pair = ?dp" by simp
  from dirs l have d': "dirs = [''00-zero''] @ ''01-one'' # []" by simp
  from last [rule_format, of "[''00-zero'']" "''01-one''" "[]"] d' n l1
  have 1: "map_of ?dp (first_segment ''01-one'') =
       Some (map (\<lambda>file_name. os_path_join (train_path_of example_dl ''digit'') [''01-one'', file_name])
                 [''b.png'', ''c.png''])"
    unfolding dp' by auto
  from lab c have 2: "first_segment (''01'' @ CHR ''-'' # ''one'') = ''01''" by blast
  from example_scan t l n c 2 l1 1 show ?thesis by blast
qed

theorem scanner_index_counterexample:
  "clash_listdir (train_path_of example_dl ''digit'') = Inr [''00-a'', ''00-b'', ''01-c'']
   \<and> clash_listdir (os_path_join (train_path_of example_dl ''digit'') [''00-a'']) = Inr [''x.png'']
   \<and> burapha_split_generators example_dl clash_listdir (config_constructor ''digit'' ''source'') =
       Inr [\<lparr> sg_name = ''train'',
              sg_filepath = [(''00'', [''/data/train/00-b/y.png'']), (''01'', [''/data/train/01-c/z.png''])],
              sg_split = ''train'' \<rparr>,
            \<lparr> sg_name = ''test'',
              sg_filepath = [(''00'', [''/data/train/00-b/y.png'']), (''01'', [''/data/train/01-c/z.png''])],
              sg_split = ''test'' \<rparr>]
   \<and> getitem (split_str CHR ''-'' ''00-a'') 0 = Inr ''00''
   \<and> map_of [(''00'', [''/data/train/00-b/y.png'']), (''01'', [''/data/train/01-c/z.png''])] ''00''
       \<noteq> Some [os_path_join (train_path_of example_dl ''digit'') [''00-a'', ''x.png'']]"
proof -
  have 1: "clash_listdir (train_path_of example_dl ''digit'') = Inr [''00-a'', ''00-b'', ''01-c'']"
    by (simp add: example_train_path clash_listdir_def)
  have 2: "clash_listdir (os_path_join (train_path_of example_dl ''digit'') [''00-a'']) = Inr [''x.png'']"
    by (simp add: example_train_path clash_listdir_def os_path_join_def join_step_def)
  have 3: "getitem (split_str CHR ''-'' ''00-a'') 0 = Inr ''00''" by (simp add: getitem_def)
  have 4: "map_of [(''00'', [''/data/train/00-b/y.png'']), (''01'', [''/data/train/01-c/z.png''])] ''00''
       \<noteq> Some [os_path_join (train_path_of example_dl ''digit'') [''00-a'', ''x.png'']]"
    by (simp add: example_train_path os_path_join_def join_step_def)
  from 1 2 clash_scan 3 4 show ?thesis by blast
qed



end
